theory Spec2Isabelle
  imports Main "HOL-Library.Sublist" "HOL-Library.Monad_Syntax"
begin

section \<open>Strings of the platform\<close>

text \<open>
  A JavaScript string is a sequence of UTF-16 code units. It is modelled as the list of
  its code units, each a natural number; \<open>js\<close> turns an ASCII literal into that form.
\<close>

type_synonym jsstring = "nat list"

definition js :: "string \<Rightarrow> jsstring" where
  "js s = map of_char s"

text \<open>
  \<open>String.prototype.trim\<close> removes WhiteSpace and LineTerminator code points from both
  ends: TAB, LF, VT, FF, CR, SPACE, NBSP, U+1680, U+2000 to U+200A, U+2028, U+2029,
  U+202F, U+205F, U+3000 and U+FEFF.
\<close>

definition is_WhiteSpace :: "nat \<Rightarrow> bool" where
  "is_WhiteSpace c \<longleftrightarrow>
     (9 \<le> c \<and> c \<le> 13) \<or> c = 32 \<or> c = 160 \<or> c = 5760 \<or> (8192 \<le> c \<and> c \<le> 8202) \<or>
     c = 8232 \<or> c = 8233 \<or> c = 8239 \<or> c = 8287 \<or> c = 12288 \<or> c = 65279"

definition trim :: "jsstring \<Rightarrow> jsstring" where
  "trim s = rev (dropWhile is_WhiteSpace (rev (dropWhile is_WhiteSpace s)))"

section \<open>The data of \<open>src/app/page.tsx\<close>\<close>

text \<open>
  A \<open>Date\<close> object holds a time value: the milliseconds since the epoch, or NaN
  (an invalid date).
\<close>

datatype Date = TimeValue int | Invalid_Date

text \<open>
  \<open>interface Task\<close>. The fields \<open>id\<close> and \<open>text\<close> are written \<open>task_id\<close> and
  \<open>task_text\<close>. Identifiers come from \<open>Date.now()\<close> and are integers.
\<close>

record Task =
  task_id :: int
  task_text :: jsstring
  completed :: bool
  createdAt :: Date

datatype FilterType = Filter_all | Filter_active | Filter_completed

datatype js_error = SyntaxError | TypeError

text \<open>
  The state of the component \<open>Home\<close>: its five \<open>useState\<close> cells, and the two pieces of
  the environment it acts on, the item \<open>taskManager_tasks\<close> of \<open>localStorage\<close>
  (\<open>None\<close> when \<open>getItem\<close> returns \<open>null\<close>) and the errors given to \<open>console.error\<close>.
\<close>

record Home =
  tasks :: "Task list"
  inputValue :: jsstring
  filter_type :: FilterType
  editingId :: "int option"
  editingText :: jsstring
  storage :: "jsstring option"
  console :: "js_error list"

definition initial :: "jsstring option \<Rightarrow> Home" where
  "initial slot = \<lparr>tasks = [], inputValue = [], filter_type = Filter_all, editingId = None,
     editingText = [], storage = slot, console = []\<rparr>"

section \<open>Calendar arithmetic of \<open>Date\<close>\<close>

text \<open>The day and year functions of the language standard (Day Number and Time within Day,
  Year Number, Month Number, Date Number).\<close>

definition msPerDay :: int where
  "msPerDay = 86400000"

definition Day :: "int \<Rightarrow> int" where
  "Day t = t div msPerDay"

definition TimeWithinDay :: "int \<Rightarrow> int" where
  "TimeWithinDay t = t mod msPerDay"

definition DayFromYear :: "int \<Rightarrow> int" where
  "DayFromYear y = 365 * (y - 1970) + (y - 1969) div 4 - (y - 1901) div 100 + (y - 1601) div 400"

definition InLeapYear :: "int \<Rightarrow> bool" where
  "InLeapYear y \<longleftrightarrow> (y mod 4 = 0 \<and> y mod 100 \<noteq> 0) \<or> y mod 400 = 0"

text \<open>
  The standard defines the year of a day as the largest \<open>y\<close> with \<open>DayFromYear y \<le> d\<close>.
  It is computed from the mean year length (146097 days in 400 years), corrected by one
  year either way.
\<close>

definition YearFromDay :: "int \<Rightarrow> int" where
  "YearFromDay d =
     (let y = 1970 + (400 * d) div 146097
      in if DayFromYear (y + 1) \<le> d then y + 1 else if d < DayFromYear y then y - 1 else y)"

text \<open>The day within the year at which month \<open>m\<close> (0 to 11) starts.\<close>

definition MonthStart :: "bool \<Rightarrow> int \<Rightarrow> int" where
  "MonthStart leap m =
     (let l = (if leap then 1 else 0)
      in if m \<le> 0 then 0 else if m = 1 then 31 else if m = 2 then 59 + l
      else if m = 3 then 90 + l else if m = 4 then 120 + l else if m = 5 then 151 + l
      else if m = 6 then 181 + l else if m = 7 then 212 + l else if m = 8 then 243 + l
      else if m = 9 then 273 + l else if m = 10 then 304 + l else if m = 11 then 334 + l
      else 365 + l)"

definition MonthFromDay :: "bool \<Rightarrow> int \<Rightarrow> int" where
  "MonthFromDay leap d =
     (if d < MonthStart leap 1 then 0 else if d < MonthStart leap 2 then 1
      else if d < MonthStart leap 3 then 2 else if d < MonthStart leap 4 then 3
      else if d < MonthStart leap 5 then 4 else if d < MonthStart leap 6 then 5
      else if d < MonthStart leap 7 then 6 else if d < MonthStart leap 8 then 7
      else if d < MonthStart leap 9 then 8 else if d < MonthStart leap 10 then 9
      else if d < MonthStart leap 11 then 10 else 11)"

section \<open>Decimal digits\<close>

definition digit :: "nat \<Rightarrow> nat" where
  "digit d = 48 + d mod 10"

text \<open>The decimal digits of a natural number, without leading zeros.\<close>

fun decimal :: "nat \<Rightarrow> jsstring" where
  "decimal n = (if n < 10 then [digit n] else decimal (n div 10) @ [digit n])"

declare decimal.simps [simp del]

text \<open>The last \<open>w\<close> decimal digits of a number, padded with zeros.\<close>

fun pad :: "nat \<Rightarrow> nat \<Rightarrow> jsstring" where
  "pad 0 n = []"
| "pad (Suc w) n = pad w (n div 10) @ [digit n]"

text \<open>\<open>Number::toString\<close> on an integer (below \<open>10^21\<close> in absolute value).\<close>

definition Number_toString :: "int \<Rightarrow> jsstring" where
  "Number_toString n = (if n < 0 then 45 # decimal (nat (- n)) else decimal (nat n))"

section \<open>\<open>Date.prototype.toISOString\<close> and \<open>toJSON\<close>\<close>

text \<open>
  \<open>YYYY-MM-DDTHH:mm:ss.sssZ\<close>, the year written with a sign and six digits when it is
  outside 0 to 9999.
\<close>

definition year_digits :: "int \<Rightarrow> jsstring" where
  "year_digits y =
     (if 0 \<le> y \<and> y \<le> 9999 then pad 4 (nat y)
      else if y < 0 then 45 # pad 6 (nat (- y)) else 43 # pad 6 (nat y))"

definition toISOString :: "int \<Rightarrow> jsstring" where
  "toISOString t =
     (let d = Day t; ms = TimeWithinDay t;
          y = YearFromDay d; n = d - DayFromYear y;
          m = MonthFromDay (InLeapYear y) n;
          dt = n - MonthStart (InLeapYear y) m + 1
      in year_digits y @ [45] @ pad 2 (nat (m + 1)) @ [45] @ pad 2 (nat dt) @ [84] @
         pad 2 (nat (ms div 3600000)) @ [58] @ pad 2 (nat (ms div 60000 mod 60)) @ [58] @
         pad 2 (nat (ms div 1000 mod 60)) @ [46] @ pad 3 (nat (ms mod 1000)) @ [90])"

section \<open>\<open>JSON.stringify\<close> on a list of tasks\<close>

definition hex_digit :: "nat \<Rightarrow> nat" where
  "hex_digit d = (if d mod 16 < 10 then 48 + d mod 16 else 87 + d mod 16)"

text \<open>The escape \<open>\uXXXX\<close> of a code unit, in lower-case hexadecimal.\<close>

definition unicode_escape :: "nat \<Rightarrow> jsstring" where
  "unicode_escape c =
     [92, 117, hex_digit (c div 4096), hex_digit (c div 256), hex_digit (c div 16), hex_digit c]"

definition is_high_surrogate :: "nat \<Rightarrow> bool" where
  "is_high_surrogate c \<longleftrightarrow> 55296 \<le> c \<and> c \<le> 56319"

definition is_low_surrogate :: "nat \<Rightarrow> bool" where
  "is_low_surrogate c \<longleftrightarrow> 56320 \<le> c \<and> c \<le> 57343"

text \<open>
  \<open>QuoteJSONString\<close>: the quotation mark and the backslash are escaped, control
  characters are written with their short escape or as \<open>\u00XX\<close>, a surrogate that is
  not part of a pair is written as \<open>\uXXXX\<close>, every other code unit stands for itself.
\<close>

definition quote_unit :: "nat \<Rightarrow> jsstring" where
  "quote_unit c =
     (if c = 8 then [92, 98] else if c = 9 then [92, 116] else if c = 10 then [92, 110]
      else if c = 12 then [92, 102] else if c = 13 then [92, 114]
      else if c = 34 then [92, 34] else if c = 92 then [92, 92]
      else if c < 32 \<or> is_high_surrogate c \<or> is_low_surrogate c then unicode_escape c
      else [c])"

fun quote_units :: "jsstring \<Rightarrow> jsstring" where
  "quote_units [] = []"
| "quote_units [c] = quote_unit c"
| "quote_units (c # d # cs) =
     (if is_high_surrogate c \<and> is_low_surrogate d then c # d # quote_units cs
      else quote_unit c @ quote_units (d # cs))"

definition QuoteJSONString :: "jsstring \<Rightarrow> jsstring" where
  "QuoteJSONString s = [34] @ quote_units s @ [34]"

text \<open>
  A date is written as what \<open>Date.prototype.toJSON\<close> returns: the quoted string of
  \<open>toISOString\<close>, or \<open>null\<close> for an invalid date.
\<close>

definition Date_json :: "Date \<Rightarrow> jsstring" where
  "Date_json d =
     (case d of TimeValue t \<Rightarrow> QuoteJSONString (toISOString t) | Invalid_Date \<Rightarrow> js ''null'')"

definition bool_json :: "bool \<Rightarrow> jsstring" where
  "bool_json b = (if b then js ''true'' else js ''false'')"

text \<open>A task is written with its properties in the order of their creation.\<close>

definition Task_json :: "Task \<Rightarrow> jsstring" where
  "Task_json t =
     [123] @ QuoteJSONString (js ''id'') @ [58] @ Number_toString (task_id t) @ [44] @
     QuoteJSONString (js ''text'') @ [58] @ QuoteJSONString (task_text t) @ [44] @
     QuoteJSONString (js ''completed'') @ [58] @ bool_json (completed t) @ [44] @
     QuoteJSONString (js ''createdAt'') @ [58] @ Date_json (createdAt t) @ [125]"

fun json_elements :: "Task list \<Rightarrow> jsstring" where
  "json_elements [] = []"
| "json_elements [t] = Task_json t"
| "json_elements (t # ts) = Task_json t @ [44] @ json_elements ts"

definition JSON_stringify :: "Task list \<Rightarrow> jsstring" where
  "JSON_stringify ts = [91] @ json_elements ts @ [93]"

section \<open>The handlers of the component\<close>

text \<open>The effect that saves: it writes only a list that has a task.\<close>

definition save_effect :: "Home \<Rightarrow> Home" where
  "save_effect s =
     (if length (tasks s) > 0 then s\<lparr>storage := Some (JSON_stringify (tasks s))\<rparr> else s)"

text \<open>
  \<open>addTask\<close>, with the two readings of the clock it makes: \<open>Date.now()\<close> and
  \<open>new Date()\<close>.
\<close>

definition addTask :: "int \<Rightarrow> int \<Rightarrow> Home \<Rightarrow> Home" where
  "addTask now now' s =
     (if trim (inputValue s) = [] then s
      else
        let newTask = \<lparr>task_id = now, task_text = trim (inputValue s), completed = False,
                        createdAt = TimeValue now'\<rparr>
        in s\<lparr>tasks := tasks s @ [newTask], inputValue := []\<rparr>)"

definition toggleTask :: "int \<Rightarrow> Home \<Rightarrow> Home" where
  "toggleTask i s =
     s\<lparr>tasks := map (\<lambda>task. if task_id task = i then task\<lparr>completed := \<not> completed task\<rparr>
                             else task) (tasks s)\<rparr>"

text \<open>\<open>deleteTask\<close> removes the item inside the state update when no task is left.\<close>

definition deleteTask :: "int \<Rightarrow> Home \<Rightarrow> Home" where
  "deleteTask i s =
     (let newTasks = filter (\<lambda>task. task_id task \<noteq> i) (tasks s)
      in if length newTasks = 0 then s\<lparr>tasks := newTasks, storage := None\<rparr>
         else s\<lparr>tasks := newTasks\<rparr>)"

definition clearAllTasks :: "Home \<Rightarrow> Home" where
  "clearAllTasks s = s\<lparr>tasks := [], storage := None\<rparr>"

definition startEditing :: "int \<Rightarrow> jsstring \<Rightarrow> Home \<Rightarrow> Home" where
  "startEditing i t s = s\<lparr>editingId := Some i, editingText := t\<rparr>"

definition saveEdit :: "int \<Rightarrow> Home \<Rightarrow> Home" where
  "saveEdit i s =
     (if trim (editingText s) = [] then s
      else s\<lparr>tasks := map (\<lambda>task. if task_id task = i
                                   then task\<lparr>task_text := trim (editingText s)\<rparr>
                                   else task) (tasks s),
             editingId := None, editingText := []\<rparr>)"

definition cancelEdit :: "Home \<Rightarrow> Home" where
  "cancelEdit s = s\<lparr>editingId := None, editingText := []\<rparr>"

definition filteredTasks :: "Home \<Rightarrow> Task list" where
  "filteredTasks s =
     filter (\<lambda>task. if filter_type s = Filter_active then \<not> completed task
                    else if filter_type s = Filter_completed then completed task
                    else True) (tasks s)"

section \<open>\<open>JSON.parse\<close>\<close>

text \<open>
  The values of JSON. A number is kept as the decimal it was written as: \<open>JNum m e\<close> is
  \<open>m\<close> times ten to the power \<open>e\<close>. An object is the list of its members as written.
\<close>

datatype json = JNull | JBool bool | JNum int int | JStr jsstring | JArr "json list"
  | JObj "(jsstring \<times> json) list"

text \<open>White space between the tokens of JSON: space, tab, line feed, carriage return.\<close>

definition is_json_ws :: "nat \<Rightarrow> bool" where
  "is_json_ws c \<longleftrightarrow> c = 32 \<or> c = 9 \<or> c = 10 \<or> c = 13"

definition skip_ws :: "jsstring \<Rightarrow> jsstring" where
  "skip_ws cs = dropWhile is_json_ws cs"

definition is_digit :: "nat \<Rightarrow> bool" where
  "is_digit c \<longleftrightarrow> 48 \<le> c \<and> c \<le> 57"

definition digits_value :: "jsstring \<Rightarrow> nat" where
  "digits_value ds = foldl (\<lambda>a c. 10 * a + (c - 48)) 0 ds"

text \<open>The value of a hexadecimal digit, in either case, and of four of them.\<close>

definition hex_value :: "nat \<Rightarrow> nat option" where
  "hex_value c =
     (if 48 \<le> c \<and> c \<le> 57 then Some (c - 48)
      else if 97 \<le> c \<and> c \<le> 102 then Some (c - 87)
      else if 65 \<le> c \<and> c \<le> 70 then Some (c - 55)
      else None)"

definition hex4 :: "nat \<Rightarrow> nat \<Rightarrow> nat \<Rightarrow> nat \<Rightarrow> nat option" where
  "hex4 a b c d =
     (case (hex_value a, hex_value b, hex_value c, hex_value d) of
        (Some x, Some y, Some z, Some w) \<Rightarrow> Some (4096 * x + 256 * y + 16 * z + w)
      | _ \<Rightarrow> None)"

text \<open>The code unit a short escape stands for: the character after the backslash is the
  quotation mark, the backslash, the slash, or one of \<open>b f n r t\<close>.\<close>

definition escape_unit :: "nat \<Rightarrow> nat option" where
  "escape_unit e =
     (if e = 34 then Some 34 else if e = 92 then Some 92 else if e = 47 then Some 47
      else if e = 98 then Some 8 else if e = 102 then Some 12 else if e = 110 then Some 10
      else if e = 114 then Some 13 else if e = 116 then Some 9 else None)"

text \<open>
  The characters of a string after its opening quotation mark, up to the closing one:
  the string they denote and what follows. A control character that is not escaped, an
  unknown escape and a string that does not end are errors.
\<close>

fun parse_string_chars :: "jsstring \<Rightarrow> (jsstring \<times> jsstring) option" where
  "parse_string_chars [] = None"
| "parse_string_chars (c # cs) =
     (if c = 34 then Some ([], cs)
      else if c = 92 then
        (case cs of
           [] \<Rightarrow> None
         | e # cs' \<Rightarrow>
             if e = 117 then
               (case cs' of
                  a # b # c' # d # cs'' \<Rightarrow>
                    (case hex4 a b c' d of
                       None \<Rightarrow> None
                     | Some u \<Rightarrow>
                         (case parse_string_chars cs'' of
                            None \<Rightarrow> None
                          | Some (s, r) \<Rightarrow> Some (u # s, r)))
                | _ \<Rightarrow> None)
             else
               (case escape_unit e of
                  None \<Rightarrow> None
                | Some u \<Rightarrow>
                    (case parse_string_chars cs' of
                       None \<Rightarrow> None
                     | Some (s, r) \<Rightarrow> Some (u # s, r))))
      else if c < 32 then None
      else (case parse_string_chars cs of None \<Rightarrow> None | Some (s, r) \<Rightarrow> Some (c # s, r)))"

text \<open>The digits at the start of a string, and what follows them.\<close>

definition span_digits :: "jsstring \<Rightarrow> jsstring \<times> jsstring" where
  "span_digits cs = (takeWhile is_digit cs, dropWhile is_digit cs)"

text \<open>The fraction of a number: nothing, or a point and at least one digit.\<close>

definition parse_fraction :: "jsstring \<Rightarrow> (jsstring \<times> jsstring) option" where
  "parse_fraction cs =
     (case cs of
        [] \<Rightarrow> Some ([], [])
      | c # r \<Rightarrow>
          if c = 46 then
            (case span_digits r of (fp, r') \<Rightarrow> if fp = [] then None else Some (fp, r'))
          else Some ([], cs))"

text \<open>The exponent of a number: nothing, or \<open>e\<close> or \<open>E\<close>, a sign or none, and at least
  one digit.\<close>

definition parse_exponent :: "jsstring \<Rightarrow> (int \<times> jsstring) option" where
  "parse_exponent cs =
     (case cs of
        [] \<Rightarrow> Some (0, [])
      | c # r \<Rightarrow>
          if c = 101 \<or> c = 69 then
            (case (case r of
                     [] \<Rightarrow> (False, r)
                   | g # r' \<Rightarrow> if g = 45 then (True, r') else if g = 43 then (False, r')
                               else (False, r)) of
               (eneg, r1) \<Rightarrow>
                 (case span_digits r1 of
                    (ep, r2) \<Rightarrow>
                      if ep = [] then None
                      else Some (if eneg then - int (digits_value ep) else int (digits_value ep), r2)))
          else Some (0, cs))"

text \<open>
  A number: a minus sign or none, the integer part (a zero, or digits that do not start
  with a zero), a fraction and an exponent.
\<close>

definition parse_number :: "jsstring \<Rightarrow> (json \<times> jsstring) option" where
  "parse_number cs =
     (case (case cs of [] \<Rightarrow> (False, cs) | c # r \<Rightarrow> if c = 45 then (True, r) else (False, cs)) of
        (neg, cs1) \<Rightarrow>
          (case span_digits cs1 of
             (ip, r1) \<Rightarrow>
               if ip = [] \<or> (length ip > 1 \<and> hd ip = 48) then None
               else
                 (case parse_fraction r1 of
                    None \<Rightarrow> None
                  | Some (fp, r2) \<Rightarrow>
                      (case parse_exponent r2 of
                         None \<Rightarrow> None
                       | Some (e, r3) \<Rightarrow>
                           Some (JNum (if neg then - int (digits_value (ip @ fp))
                                       else int (digits_value (ip @ fp)))
                                      (e - int (length fp)), r3)))))"

text \<open>What follows a given prefix (for the literals \<open>true\<close>, \<open>false\<close> and \<open>null\<close>).\<close>

definition strip_prefix :: "jsstring \<Rightarrow> jsstring \<Rightarrow> jsstring option" where
  "strip_prefix p cs = (if take (length p) cs = p then Some (drop (length p) cs) else None)"

text \<open>
  The descent over values, the elements of an array and the members of an object. The
  two tests on lengths make the termination evident; they never fail (lemmas
  \<open>parse_elements_plain\<close> and \<open>parse_members_plain\<close> below).
\<close>

function parse_value :: "jsstring \<Rightarrow> (json \<times> jsstring) option"
  and parse_elements :: "jsstring \<Rightarrow> (json list \<times> jsstring) option"
  and parse_members :: "jsstring \<Rightarrow> ((jsstring \<times> json) list \<times> jsstring) option"
where
  "parse_value cs =
     (case skip_ws cs of
        [] \<Rightarrow> None
      | c # r \<Rightarrow>
          if c = 123 then
            (case skip_ws r of
               [] \<Rightarrow> None
             | c' # r' \<Rightarrow>
                 if c' = 125 then Some (JObj [], r')
                 else (case parse_members r of None \<Rightarrow> None | Some (ms, r'') \<Rightarrow> Some (JObj ms, r'')))
          else if c = 91 then
            (case skip_ws r of
               [] \<Rightarrow> None
             | c' # r' \<Rightarrow>
                 if c' = 93 then Some (JArr [], r')
                 else (case parse_elements r of None \<Rightarrow> None | Some (vs, r'') \<Rightarrow> Some (JArr vs, r'')))
          else if c = 34 then
            (case parse_string_chars r of None \<Rightarrow> None | Some (s, r') \<Rightarrow> Some (JStr s, r'))
          else if c = 116 then
            (case strip_prefix (js ''true'') (c # r) of None \<Rightarrow> None | Some r' \<Rightarrow> Some (JBool True, r'))
          else if c = 102 then
            (case strip_prefix (js ''false'') (c # r) of None \<Rightarrow> None | Some r' \<Rightarrow> Some (JBool False, r'))
          else if c = 110 then
            (case strip_prefix (js ''null'') (c # r) of None \<Rightarrow> None | Some r' \<Rightarrow> Some (JNull, r'))
          else parse_number (c # r))"
| "parse_elements cs =
     (case parse_value cs of
        None \<Rightarrow> None
      | Some (v, r) \<Rightarrow>
          if length r < length cs then
            (case skip_ws r of
               [] \<Rightarrow> None
             | c # r' \<Rightarrow>
                 if c = 44 then
                   (case parse_elements r' of None \<Rightarrow> None | Some (vs, r'') \<Rightarrow> Some (v # vs, r''))
                 else if c = 93 then Some ([v], r')
                 else None)
          else None)"
| "parse_members cs =
     (case skip_ws cs of
        [] \<Rightarrow> None
      | q # r \<Rightarrow>
          if q = 34 then
            (case parse_string_chars r of
               None \<Rightarrow> None
             | Some (k, r1) \<Rightarrow>
                 (case skip_ws r1 of
                    [] \<Rightarrow> None
                  | c # r2 \<Rightarrow>
                      if c = 58 then
                        (case parse_value r2 of
                           None \<Rightarrow> None
                         | Some (v, r3) \<Rightarrow>
                             if length r3 < length r2 then
                               (case skip_ws r3 of
                                  [] \<Rightarrow> None
                                | c' # r4 \<Rightarrow>
                                    if c' = 44 then
                                      (case parse_members r4 of
                                         None \<Rightarrow> None
                                       | Some (ms, r5) \<Rightarrow> Some ((k, v) # ms, r5))
                                    else if c' = 125 then Some ([(k, v)], r4)
                                    else None)
                             else None)
                      else None))
          else None)"
  by pat_completeness auto
termination
proof -
  have str: "parse_string_chars cs = Some (s, r) \<Longrightarrow> length r < length cs" for cs s r
  proof (induction cs arbitrary: s r rule: parse_string_chars.induct)
    case 1
    then show ?case by simp
  next
    case (2 c cs)
    then show ?case
      by (auto split: if_splits list.splits option.splits) fastforce+
  qed
  have ws: "skip_ws cs = c # r \<Longrightarrow> length r < length cs" for cs c r
    using length_dropWhile_le [of is_json_ws cs] by (simp add: skip_ws_def)
  show ?thesis
    apply (relation "measures
      [\<lambda>x. case x of Inl cs \<Rightarrow> length cs | Inr (Inl cs) \<Rightarrow> length cs | Inr (Inr cs) \<Rightarrow> length cs,
       \<lambda>x. case x of Inl cs \<Rightarrow> 0 | Inr (Inl cs) \<Rightarrow> 1 | Inr (Inr cs) \<Rightarrow> 1]")
    apply (auto dest!: ws str)
    done
qed

declare parse_value.simps [simp del] parse_elements.simps [simp del] parse_members.simps [simp del]

text \<open>\<open>JSON.parse\<close>: one value, with nothing but white space after it. \<open>None\<close> is the
  \<open>SyntaxError\<close> it throws.\<close>

definition JSON_parse :: "jsstring \<Rightarrow> json option" where
  "JSON_parse s =
     (case parse_value s of
        None \<Rightarrow> None
      | Some (v, r) \<Rightarrow> if skip_ws r = [] then Some v else None)"

section \<open>\<open>new Date(value)\<close> on a value read by \<open>JSON.parse\<close>\<close>

definition MakeDay :: "int \<Rightarrow> int \<Rightarrow> int \<Rightarrow> int" where
  "MakeDay y m dt = DayFromYear y + MonthStart (InLeapYear y) m + dt - 1"

definition MakeTime :: "int \<Rightarrow> int \<Rightarrow> int \<Rightarrow> int \<Rightarrow> int" where
  "MakeTime h mi sec ms = h * 3600000 + mi * 60000 + sec * 1000 + ms"

definition MakeDate :: "int \<Rightarrow> int \<Rightarrow> int" where
  "MakeDate day time = day * msPerDay + time"

definition TimeClip :: "int \<Rightarrow> Date" where
  "TimeClip t = (if \<bar>t\<bar> \<le> 8640000000000000 then TimeValue t else Invalid_Date)"

definition read_digits :: "nat \<Rightarrow> jsstring \<Rightarrow> (nat \<times> jsstring) option" where
  "read_digits w cs =
     (if w \<le> length cs \<and> list_all is_digit (take w cs)
      then Some (digits_value (take w cs), drop w cs) else None)"

definition expect :: "nat \<Rightarrow> jsstring \<Rightarrow> jsstring option" where
  "expect c cs = (case cs of [] \<Rightarrow> None | d # r \<Rightarrow> if d = c then Some r else None)"

text \<open>The year of the date-time format: four digits, or a sign and six digits (not \<open>-000000\<close>).\<close>

definition read_year :: "jsstring \<Rightarrow> (int \<times> jsstring) option" where
  "read_year cs =
     (case cs of
        [] \<Rightarrow> None
      | c # r \<Rightarrow>
          if c = 43 \<or> c = 45 then
            (case read_digits 6 r of
               None \<Rightarrow> None
             | Some (y, r') \<Rightarrow>
                 if c = 45 \<and> y = 0 then None
                 else Some (if c = 45 then - int y else int y, r'))
          else (case read_digits 4 cs of None \<Rightarrow> None | Some (y, r') \<Rightarrow> Some (int y, r')))"

text \<open>
  \<open>Date.parse\<close> on a string in the complete date-time format in UTC,
  \<open>YYYY-MM-DDTHH:mm:ss.sssZ\<close>, whose fields name a day of the calendar and a time of
  the day. The result is \<open>None\<close> for every other string: the language standard leaves
  most of them to the implementation, and they are not modelled.
\<close>

definition Date_parse :: "jsstring \<Rightarrow> Date option" where
  "Date_parse s =
     do {
       (y, r) \<leftarrow> read_year s;
       r \<leftarrow> expect 45 r;
       (mo, r) \<leftarrow> read_digits 2 r;
       r \<leftarrow> expect 45 r;
       (d, r) \<leftarrow> read_digits 2 r;
       r \<leftarrow> expect 84 r;
       (h, r) \<leftarrow> read_digits 2 r;
       r \<leftarrow> expect 58 r;
       (mi, r) \<leftarrow> read_digits 2 r;
       r \<leftarrow> expect 58 r;
       (sec, r) \<leftarrow> read_digits 2 r;
       r \<leftarrow> expect 46 r;
       (ms, r) \<leftarrow> read_digits 3 r;
       r \<leftarrow> expect 90 r;
       if r = [] \<and> 1 \<le> mo \<and> mo \<le> 12 \<and> 1 \<le> d \<and>
          MonthStart (InLeapYear y) (int mo - 1) + int d \<le> MonthStart (InLeapYear y) (int mo) \<and>
          h \<le> 23 \<and> mi \<le> 59 \<and> sec \<le> 59
       then Some (TimeClip (MakeDate (MakeDay y (int mo - 1) (int d))
                               (MakeTime (int h) (int mi) (int sec) (int ms))))
       else None
     }"

text \<open>The integer a decimal \<open>m\<close> times ten to the power \<open>e\<close> is, when it is one.\<close>

definition integer_of :: "int \<Rightarrow> int \<Rightarrow> int option" where
  "integer_of m e =
     (if 0 \<le> e then Some (m * 10 ^ nat e)
      else if m mod 10 ^ nat (- e) = 0 then Some (m div 10 ^ nat (- e)) else None)"

text \<open>
  \<open>new Date(v)\<close>, where \<open>v\<close> is the property \<open>createdAt\<close> of a parsed object, \<open>None\<close>
  standing for \<open>undefined\<close> (the property is missing). The result is \<open>None\<close> where the
  value is not modelled: a number that is not an integer, a string that \<open>Date_parse\<close>
  does not cover, and an array or an object, which the constructor first turns into a
  primitive value (where that conversion throws, see \<open>ToPrimitive_throws\<close> below).
\<close>

definition new_Date :: "json option \<Rightarrow> Date option" where
  "new_Date v =
     (case v of
        None \<Rightarrow> Some Invalid_Date
      | Some JNull \<Rightarrow> Some (TimeValue 0)
      | Some (JBool b) \<Rightarrow> Some (TimeValue (if b then 1 else 0))
      | Some (JNum m e) \<Rightarrow> (case integer_of m e of None \<Rightarrow> None | Some n \<Rightarrow> Some (TimeClip n))
      | Some (JStr s) \<Rightarrow> Date_parse s
      | Some _ \<Rightarrow> None)"

text \<open>
  Whether \<open>new Date(v)\<close> throws. The constructor turns an object into a primitive
  value with the methods \<open>valueOf\<close> and \<open>toString\<close>. On an object made by
  \<open>JSON.parse\<close> the method \<open>valueOf\<close> is its own property of that name, which is not
  a function, or the inherited one, which returns the object itself; so the result
  comes from \<open>toString\<close>. That is the inherited function, which returns a string,
  unless the object has a property of that name: a value of JSON is not a function, and
  the conversion then throws a \<open>TypeError\<close>. On an array \<open>toString\<close> joins the
  elements, each turned into a string in the same way (\<open>null\<close> gives the empty
  string), and throws when one of them does.
\<close>

fun ToPrimitive_throws :: "json \<Rightarrow> bool" where
  "ToPrimitive_throws (JObj ms) \<longleftrightarrow> js ''toString'' \<in> set (map fst ms)"
| "ToPrimitive_throws (JArr vs) \<longleftrightarrow> list_ex ToPrimitive_throws vs"
| "ToPrimitive_throws v \<longleftrightarrow> False"

section \<open>The effect that loads\<close>

text \<open>
  The property \<open>createdAt\<close> of an element of the parsed array. An object made by
  \<open>JSON.parse\<close> has the members of its text as properties, the last one of a name
  when the name is repeated; any other value that is not \<open>null\<close> has no such property.
\<close>

definition createdAt_of :: "json \<Rightarrow> json option" where
  "createdAt_of v = (case v of JObj ms \<Rightarrow> map_of (rev ms) (js ''createdAt'') | _ \<Rightarrow> None)"

text \<open>
  Whether the callback of \<open>parsedTasks.map\<close> throws on an element: reading
  \<open>task.createdAt\<close> throws a \<open>TypeError\<close> when the element is \<open>null\<close>, and
  \<open>new Date\<close> throws one on a property that cannot be turned into a primitive value.
  The spread \<open>...task\<close> throws on no value.
\<close>

definition callback_throws :: "json \<Rightarrow> bool" where
  "callback_throws v \<longleftrightarrow>
     v = JNull \<or> (case createdAt_of v of None \<Rightarrow> False | Some c \<Rightarrow> ToPrimitive_throws c)"

text \<open>
  The callback of \<open>parsedTasks.map\<close> on one element that is an object with the
  properties of a \<open>Task\<close>, in the order the component writes them (\<open>createdAt\<close> may
  be missing): the spread keeps \<open>id\<close>, \<open>text\<close> and \<open>completed\<close>, and \<open>createdAt\<close>
  becomes a \<open>Date\<close>. An identifier is an integer that a number holds exactly. The result
  is \<open>None\<close> for an element that is not of the declared type \<open>Task\<close>; the state it
  leads to is not modelled.
\<close>

definition Task_of_json :: "json \<Rightarrow> Task option" where
  "Task_of_json v =
     (case v of
        JObj [(k1, JNum m e), (k2, JStr s), (k3, JBool b)] \<Rightarrow>
          if [k1, k2, k3] = [js ''id'', js ''text'', js ''completed''] then
            (case integer_of m e of
               None \<Rightarrow> None
             | Some i \<Rightarrow>
                 if \<bar>i\<bar> \<le> 9007199254740991
                 then Some \<lparr>task_id = i, task_text = s, completed = b, createdAt = Invalid_Date\<rparr>
                 else None)
          else None
      | JObj [(k1, JNum m e), (k2, JStr s), (k3, JBool b), (k4, c)] \<Rightarrow>
          if [k1, k2, k3, k4] = [js ''id'', js ''text'', js ''completed'', js ''createdAt''] then
            (case (integer_of m e, new_Date (Some c)) of
               (Some i, Some d) \<Rightarrow>
                 if \<bar>i\<bar> \<le> 9007199254740991
                 then Some \<lparr>task_id = i, task_text = s, completed = b, createdAt = d\<rparr>
                 else None
             | _ \<Rightarrow> None)
          else None
      | _ \<Rightarrow> None)"

fun Tasks_of_json :: "json list \<Rightarrow> Task list option" where
  "Tasks_of_json [] = Some []"
| "Tasks_of_json (v # vs) =
     (case Task_of_json v of
        None \<Rightarrow> None
      | Some t \<Rightarrow> (case Tasks_of_json vs of None \<Rightarrow> None | Some ts \<Rightarrow> Some (t # ts)))"

text \<open>
  The effect that loads (lines 23 to 38). The item is read; nothing happens when it is
  \<open>null\<close> or the empty string. \<open>JSON.parse\<close> throws a \<open>SyntaxError\<close> on a string that is
  not JSON; \<open>parsedTasks.map\<close> throws a \<open>TypeError\<close> when the value is not an array
  (it has no method \<open>map\<close>), and its callback throws one on an element that is \<open>null\<close>
  or whose \<open>createdAt\<close> cannot be turned into a primitive value. The \<open>catch\<close> gives the error to
  \<open>console.error\<close> and the list is not set. Otherwise the list is set. The result is
  \<open>None\<close> when the list that is set is not of the declared type \<open>Task[]\<close> (see
  \<open>Task_of_json\<close>): the record of the state cannot hold it.
\<close>

definition load_effect :: "Home \<Rightarrow> Home option" where
  "load_effect s =
     (case storage s of
        None \<Rightarrow> Some s
      | Some savedTasks \<Rightarrow>
          if savedTasks = [] then Some s
          else
            (case JSON_parse savedTasks of
               None \<Rightarrow> Some (s\<lparr>console := console s @ [SyntaxError]\<rparr>)
             | Some (JArr vs) \<Rightarrow>
                 if list_ex callback_throws vs
                 then Some (s\<lparr>console := console s @ [TypeError]\<rparr>)
                 else (case Tasks_of_json vs of
                         None \<Rightarrow> None
                       | Some tasksWithDates \<Rightarrow> Some (s\<lparr>tasks := tasksWithDates\<rparr>))
             | Some _ \<Rightarrow> Some (s\<lparr>console := console s @ [TypeError]\<rparr>)))"

text \<open>
  Mounting the component on a given content of the item: the first render with the
  initial state, the effect that loads, and the effect that saves on the list it set.
\<close>

definition mount :: "jsstring option \<Rightarrow> Home option" where
  "mount slot =
     (case load_effect (initial slot) of None \<Rightarrow> None | Some s \<Rightarrow> Some (save_effect s))"

section \<open>Events\<close>

text \<open>
  What the page can do to the component: typing in the two inputs, submitting the form
  (with the two readings of the clock), and the buttons.
\<close>

datatype Event =
    ChangeInput jsstring
  | Submit int int
  | Toggle int
  | Delete int
  | ClearAll
  | StartEditing int jsstring
  | ChangeEditingText jsstring
  | SaveEdit int
  | CancelEdit
  | SetFilter FilterType

fun handler :: "Event \<Rightarrow> Home \<Rightarrow> Home" where
  "handler (ChangeInput v) s = s\<lparr>inputValue := v\<rparr>"
| "handler (Submit now now') s = addTask now now' s"
| "handler (Toggle i) s = toggleTask i s"
| "handler (Delete i) s = deleteTask i s"
| "handler ClearAll s = clearAllTasks s"
| "handler (StartEditing i t) s = startEditing i t s"
| "handler (ChangeEditingText v) s = s\<lparr>editingText := v\<rparr>"
| "handler (SaveEdit i) s = saveEdit i s"
| "handler CancelEdit s = cancelEdit s"
| "handler (SetFilter f) s = s\<lparr>filter_type := f\<rparr>"

text \<open>Whether the handler calls \<open>setTasks\<close>: the list is then a new array, and the effect
  that saves runs after the render.\<close>

fun sets_tasks :: "Event \<Rightarrow> Home \<Rightarrow> bool" where
  "sets_tasks (Submit now now') s \<longleftrightarrow> trim (inputValue s) \<noteq> []"
| "sets_tasks (Toggle i) s \<longleftrightarrow> True"
| "sets_tasks (Delete i) s \<longleftrightarrow> True"
| "sets_tasks ClearAll s \<longleftrightarrow> True"
| "sets_tasks (SaveEdit i) s \<longleftrightarrow> trim (editingText s) \<noteq> []"
| "sets_tasks e s \<longleftrightarrow> False"

definition step :: "Event \<Rightarrow> Home \<Rightarrow> Home" where
  "step e s = (if sets_tasks e s then save_effect (handler e s) else handler e s)"

fun run :: "Event list \<Rightarrow> Home \<Rightarrow> Home" where
  "run [] s = s"
| "run (e # es) s = run es (step e s)"

section \<open>The values that are written\<close>









section \<open>Predicates of the specification\<close>

text \<open>A text as the data model wants it: not empty, with no white space at either end.\<close>

definition valid_text :: "jsstring \<Rightarrow> bool" where
  "valid_text v \<longleftrightarrow> v \<noteq> [] \<and> trim v = v"



section \<open>Facts about \<open>trim\<close>\<close>



lemma trim_Nil: "trim [] = []"
  by (simp add: trim_def)

section \<open>Facts about the handlers\<close>

lemma tasks_save_effect: "tasks (save_effect s) = tasks s"
  by (simp add: save_effect_def)

lemma storage_save_effect:
  "storage (save_effect s) = (if tasks s = [] then storage s else Some (JSON_stringify (tasks s)))"
  by (simp add: save_effect_def)

lemma session_save_effect:
  "editingId (save_effect s) = editingId s" "editingText (save_effect s) = editingText s"
  "inputValue (save_effect s) = inputValue s" "filter_type (save_effect s) = filter_type s"
  "console (save_effect s) = console s"
  by (simp_all add: save_effect_def)

lemma JSON_stringify_not_empty_list: "ts \<noteq> [] \<Longrightarrow> JSON_stringify ts \<noteq> JSON_stringify []"
proof -
  assume "ts \<noteq> []"
  then obtain t ts' where ts: "ts = t # ts'" by (cases ts) auto
  have "json_elements (t # ts') \<noteq> []"
    by (cases ts') (simp_all add: Task_json_def)
  with ts show ?thesis by (simp add: JSON_stringify_def)
qed

section \<open>The parser consumes its input\<close>

lemma skip_ws_length: "skip_ws cs = c # r \<Longrightarrow> length r < length cs"
  using length_dropWhile_le [of is_json_ws cs] by (simp add: skip_ws_def)

lemma parse_string_chars_length:
  "parse_string_chars cs = Some (s, r) \<Longrightarrow> length r < length cs"
proof (induction cs arbitrary: s r rule: parse_string_chars.induct)
  case 1
  then show ?case by simp
next
  case (2 c cs)
  then show ?case
    by (auto split: if_splits list.splits option.splits) fastforce+
qed

lemma span_digits_length: "span_digits cs = (ds, r) \<Longrightarrow> length ds + length r = length cs"
proof -
  assume "span_digits cs = (ds, r)"
  then have "ds @ r = cs" by (auto simp add: span_digits_def)
  then show ?thesis by (metis length_append)
qed

lemma parse_fraction_length: "parse_fraction cs = Some (fp, r) \<Longrightarrow> length r \<le> length cs"
  by (cases cs) (auto simp add: parse_fraction_def split: if_splits prod.splits dest!: span_digits_length)

lemma parse_exponent_length: "parse_exponent cs = Some (e, r) \<Longrightarrow> length r \<le> length cs"
  by (cases cs)
    (auto simp add: parse_exponent_def split: if_splits prod.splits list.splits dest!: span_digits_length)

lemma parse_number_length:
  assumes "parse_number cs = Some (v, r)"
  shows "length r < length cs"
proof -
  obtain neg cs1 where n: "(case cs of [] \<Rightarrow> (False, cs) | c # r \<Rightarrow> if c = 45 then (True, r) else (False, cs)) = (neg, cs1)"
    by (cases "(case cs of [] \<Rightarrow> (False, cs) | c # r \<Rightarrow> if c = 45 then (True, r) else (False, cs))") auto
  then have l1: "length cs1 \<le> length cs"
    by (cases cs) (auto split: if_splits)
  obtain ip r1 where sp: "span_digits cs1 = (ip, r1)"
    by (cases "span_digits cs1") auto
  from assms n sp have ip: "ip \<noteq> []"
    by (auto simp add: parse_number_def split: if_splits)
  from assms n sp ip obtain fp r2 e where fr: "parse_fraction r1 = Some (fp, r2)"
    and ex: "parse_exponent r2 = Some (e, r)"
    by (auto simp add: parse_number_def split: if_splits option.splits)
  from span_digits_length [OF sp] ip have "length r1 < length cs1" by (cases ip) auto
  with parse_fraction_length [OF fr] parse_exponent_length [OF ex] l1 show ?thesis by linarith
qed

lemma strip_prefix_length: "strip_prefix p cs = Some r \<Longrightarrow> p \<noteq> [] \<Longrightarrow> length r < length cs"
proof -
  assume a: "strip_prefix p cs = Some r" and p: "p \<noteq> []"
  then have t: "take (length p) cs = p" and r: "r = drop (length p) cs"
    by (auto simp add: strip_prefix_def split: if_splits)
  from t have "length (take (length p) cs) = length p" by simp
  then have "length p \<le> length cs" by simp
  with p r show ?thesis by (cases p) auto
qed

lemma parse_consumes:
  "(\<forall>v r. parse_value cs = Some (v, r) \<longrightarrow> length r < length cs)"
  "(\<forall>vs r. parse_elements cs' = Some (vs, r) \<longrightarrow> length r < length cs')"
  "(\<forall>ms r. parse_members cs'' = Some (ms, r) \<longrightarrow> length r < length cs'')"
proof (induction cs and cs' and cs'' rule: parse_value_parse_elements_parse_members.induct)
  case (1 cs)
  show ?case
  proof (intro allI impI)
    fix v r assume a: "parse_value cs = Some (v, r)"
    then obtain c r0 where ws: "skip_ws cs = c # r0"
      by (subst (asm) parse_value.simps) (auto split: list.splits)
    note l0 = skip_ws_length [OF ws]
    have js: "js ''true'' \<noteq> []" "js ''false'' \<noteq> []" "js ''null'' \<noteq> []"
      by (simp_all add: js_def)
    have "length r \<le> length r0"
    proof -
      consider (obj) "c = 123" | (arr) "c = 91" "c \<noteq> 123" | (str) "c = 34"
        | (other) "c \<noteq> 123" "c \<noteq> 91" "c \<noteq> 34"
        by auto
      then show ?thesis
      proof cases
        case obj
        from a ws obj obtain c' r' where ws': "skip_ws r0 = c' # r'"
          by (subst (asm) parse_value.simps) (auto split: list.splits)
        show ?thesis
        proof (cases "c' = 125")
          case True
          with a ws obj ws' have "r = r'"
            by (subst (asm) parse_value.simps) auto
          with skip_ws_length [OF ws'] show ?thesis by simp
        next
          case False
          with a ws obj ws' obtain ms where "parse_members r0 = Some (ms, r)"
            by (subst (asm) parse_value.simps) (auto split: option.splits)
          with 1(1) [OF ws obj ws' False] show ?thesis by auto
        qed
      next
        case arr
        from a ws arr obtain c' r' where ws': "skip_ws r0 = c' # r'"
          by (subst (asm) parse_value.simps) (auto split: list.splits)
        show ?thesis
        proof (cases "c' = 93")
          case True
          with a ws arr ws' have "r = r'"
            by (subst (asm) parse_value.simps) auto
          with skip_ws_length [OF ws'] show ?thesis by simp
        next
          case False
          with a ws arr ws' obtain vs where "parse_elements r0 = Some (vs, r)"
            by (subst (asm) parse_value.simps) (auto split: option.splits)
          with 1(2) [OF ws arr(2) arr(1) ws' False] show ?thesis by auto
        qed
      next
        case str
        with a ws obtain s where "parse_string_chars r0 = Some (s, r)"
          by (subst (asm) parse_value.simps) (auto split: option.splits)
        from parse_string_chars_length [OF this] show ?thesis by simp
      next
        case other
        with a ws have "strip_prefix (js ''true'') (c # r0) = Some r \<or>
            strip_prefix (js ''false'') (c # r0) = Some r \<or>
            strip_prefix (js ''null'') (c # r0) = Some r \<or>
            (\<exists>v. parse_number (c # r0) = Some (v, r))"
          by (subst (asm) parse_value.simps) (auto split: option.splits if_splits)
        then show ?thesis
          using strip_prefix_length [of _ "c # r0" r] parse_number_length [of "c # r0" _ r] js
          by fastforce
      qed
    qed
    with l0 show "length r < length cs" by simp
  qed
next
  case (2 cs)
  show ?case
  proof (intro allI impI)
    fix vs r assume a: "parse_elements cs = Some (vs, r)"
    from a obtain v r1 where pv: "parse_value cs = Some (v, r1)"
      by (subst (asm) parse_elements.simps) (auto split: option.splits)
    from a pv have g: "length r1 < length cs"
      by (subst (asm) parse_elements.simps) (auto split: if_splits)
    from a pv g obtain c r2 where ws: "skip_ws r1 = c # r2"
      by (subst (asm) parse_elements.simps) (auto split: list.splits)
    have "length r \<le> length r2"
    proof (cases "c = 44")
      case True
      with a pv g ws obtain vs' where "parse_elements r2 = Some (vs', r)"
        by (subst (asm) parse_elements.simps) (auto split: option.splits)
      with 2(2) [OF pv refl g ws True] show ?thesis by auto
    next
      case False
      with a pv g ws have "r = r2"
        by (subst (asm) parse_elements.simps) (auto split: if_splits)
      then show ?thesis by simp
    qed
    with g skip_ws_length [OF ws] show "length r < length cs" by linarith
  qed
next
  case (3 cs)
  show ?case
  proof (intro allI impI)
    fix ms r assume a: "parse_members cs = Some (ms, r)"
    from a obtain r0 where ws: "skip_ws cs = 34 # r0"
      by (subst (asm) parse_members.simps) (auto split: list.splits if_splits)
    from a ws obtain k r1 where st: "parse_string_chars r0 = Some (k, r1)"
      by (subst (asm) parse_members.simps) (auto split: option.splits)
    from a ws st obtain r2 where ws1: "skip_ws r1 = 58 # r2"
      by (subst (asm) parse_members.simps) (auto split: list.splits if_splits)
    from a ws st ws1 obtain v r3 where pv: "parse_value r2 = Some (v, r3)"
      by (subst (asm) parse_members.simps) (auto split: option.splits)
    from a ws st ws1 pv have g: "length r3 < length r2"
      by (subst (asm) parse_members.simps) (auto split: if_splits)
    from a ws st ws1 pv g obtain c' r4 where ws3: "skip_ws r3 = c' # r4"
      by (subst (asm) parse_members.simps) (auto split: list.splits)
    have "length r \<le> length r4"
    proof (cases "c' = 44")
      case True
      with a ws st ws1 pv g ws3 obtain ms' where "parse_members r4 = Some (ms', r)"
        by (subst (asm) parse_members.simps) (auto split: option.splits)
      with 3(2) [OF ws refl st refl ws1 refl pv refl g ws3 True] show ?thesis by auto
    next
      case False
      with a ws st ws1 pv g ws3 have "r = r4"
        by (subst (asm) parse_members.simps) (auto split: if_splits)
      then show ?thesis by simp
    qed
    with skip_ws_length [OF ws] parse_string_chars_length [OF st] skip_ws_length [OF ws1] g
      skip_ws_length [OF ws3]
    show "length r < length cs" by linarith
  qed
qed

text \<open>So the tests on lengths in \<open>parse_elements\<close> and \<open>parse_members\<close> never fail: the two
  functions are the plain descent.\<close>

lemma parse_elements_plain:
  "parse_elements cs =
     (case parse_value cs of
        None \<Rightarrow> None
      | Some (v, r) \<Rightarrow>
          (case skip_ws r of
             [] \<Rightarrow> None
           | c # r' \<Rightarrow>
               if c = 44 then
                 (case parse_elements r' of None \<Rightarrow> None | Some (vs, r'') \<Rightarrow> Some (v # vs, r''))
               else if c = 93 then Some ([v], r')
               else None))"
proof (cases "parse_value cs")
  case None
  then show ?thesis by (subst parse_elements.simps) simp
next
  case (Some p)
  obtain v r where p: "p = (v, r)" by (cases p)
  with Some parse_consumes(1) [of cs] have "length r < length cs" by simp
  with Some p show ?thesis by (subst parse_elements.simps) simp
qed

lemma parse_members_plain:
  "parse_members cs =
     (case skip_ws cs of
        [] \<Rightarrow> None
      | q # r \<Rightarrow>
          if q = 34 then
            (case parse_string_chars r of
               None \<Rightarrow> None
             | Some (k, r1) \<Rightarrow>
                 (case skip_ws r1 of
                    [] \<Rightarrow> None
                  | c # r2 \<Rightarrow>
                      if c = 58 then
                        (case parse_value r2 of
                           None \<Rightarrow> None
                         | Some (v, r3) \<Rightarrow>
                             (case skip_ws r3 of
                                [] \<Rightarrow> None
                              | c' # r4 \<Rightarrow>
                                  if c' = 44 then
                                    (case parse_members r4 of
                                       None \<Rightarrow> None
                                     | Some (ms, r5) \<Rightarrow> Some ((k, v) # ms, r5))
                                  else if c' = 125 then Some ([(k, v)], r4)
                                  else None))
                      else None))
          else None)"
proof -
  have "length r3 < length r2" if "parse_value r2 = Some (v, r3)" for r2 v r3
    using that parse_consumes(1) [of r2] by simp
  then show ?thesis
    by (subst parse_members.simps) (auto split: list.splits option.splits)
qed

section \<open>Reading back what \<open>JSON.stringify\<close> writes\<close>

subsection \<open>Digits\<close>












subsection \<open>Strings\<close>

lemma hex_value_hex_digit: "hex_value (hex_digit d) = Some (d mod 16)"
proof -
  have "hex_value (if x < 10 then 48 + x else 87 + x) = Some x" if "x < 16" for x
    using that by (auto simp add: hex_value_def)
  from this [of "d mod 16"] show ?thesis
    by (simp add: hex_digit_def)
qed

lemma hex4_unicode_escape:
  assumes "c < 65536"
  shows "hex4 (hex_digit (c div 4096)) (hex_digit (c div 256)) (hex_digit (c div 16)) (hex_digit c) = Some c"
proof -
  have a: "c div 16 div 16 = c div 256" and b: "c div 256 div 16 = c div 4096"
    by (simp_all add: div_mult2_eq [symmetric])
  have c0: "c = 16 * (c div 16) + c mod 16" by simp
  have "c div 16 = 16 * (c div 16 div 16) + c div 16 mod 16" by simp
  then have c1: "c div 16 = 16 * (c div 256) + c div 16 mod 16" by (simp only: a)
  have "c div 256 = 16 * (c div 256 div 16) + c div 256 mod 16" by simp
  then have c2: "c div 256 = 16 * (c div 4096) + c div 256 mod 16" by (simp only: b)
  have "c div 4096 < 16"
    using assms by (simp add: less_mult_imp_div_less)
  then have c3: "c div 4096 mod 16 = c div 4096" by simp
  have "4096 * (c div 4096) + 256 * (c div 256 mod 16) + 16 * (c div 16 mod 16) + c mod 16 = c"
    using c0 c1 c2 by linarith
  with c3 show ?thesis by (simp add: hex4_def hex_value_hex_digit)
qed

lemma parse_unicode_escape:
  "c < 65536 \<Longrightarrow>
   parse_string_chars (unicode_escape c @ r) =
     (case parse_string_chars r of None \<Rightarrow> None | Some (s, r') \<Rightarrow> Some (c # s, r'))"
  by (simp add: unicode_escape_def hex4_unicode_escape)

lemma parse_quote_unit:
  "parse_string_chars (quote_unit c @ r) =
     (case parse_string_chars r of None \<Rightarrow> None | Some (s, r') \<Rightarrow> Some (c # s, r'))"
proof -
  consider "c = 8 \<or> c = 9 \<or> c = 10 \<or> c = 12 \<or> c = 13 \<or> c = 34 \<or> c = 92"
    | "c \<noteq> 8" "c \<noteq> 9" "c \<noteq> 10" "c \<noteq> 12" "c \<noteq> 13" "c \<noteq> 34" "c \<noteq> 92"
      "c < 32 \<or> is_high_surrogate c \<or> is_low_surrogate c"
    | "c \<noteq> 34" "c \<noteq> 92" "\<not> c < 32" "\<not> is_high_surrogate c" "\<not> is_low_surrogate c"
    by auto
  then show ?thesis
  proof cases
    case 1
    then show ?thesis
      by (auto simp add: quote_unit_def escape_unit_def)
  next
    case 2
    then have "c < 65536"
      by (auto simp add: is_high_surrogate_def is_low_surrogate_def)
    with 2 show ?thesis
      by (simp add: quote_unit_def parse_unicode_escape)
  next
    case 3
    then show ?thesis
      by (simp add: quote_unit_def)
  qed
qed

lemma parse_quote_units:
  "parse_string_chars (quote_units s @ 34 # r) = Some (s, r)"
proof (induction s rule: quote_units.induct)
  case 1
  show ?case by simp
next
  case (2 c)
  show ?case by (simp add: parse_quote_unit)
next
  case (3 c d cs)
  show ?case
  proof (cases "is_high_surrogate c \<and> is_low_surrogate d")
    case True
    then have c: "c \<noteq> 34" "c \<noteq> 92" "\<not> c < 32" and d: "d \<noteq> 34" "d \<noteq> 92" "\<not> d < 32"
      by (auto simp add: is_high_surrogate_def is_low_surrogate_def)
    from True have "quote_units (c # d # cs) @ 34 # r = c # d # (quote_units cs @ 34 # r)"
      by simp
    moreover have "parse_string_chars (c # d # (quote_units cs @ 34 # r)) = Some (c # d # cs, r)"
      using c d 3(1) [OF True] by simp
    ultimately show ?thesis by (simp only:)
  next
    case False
    have "quote_units (c # d # cs) @ 34 # r = quote_unit c @ (quote_units (d # cs) @ 34 # r)"
      by (simp only: quote_units.simps False if_False append_assoc)
    moreover have "parse_string_chars (quote_unit c @ (quote_units (d # cs) @ 34 # r)) =
        Some (c # d # cs, r)"
      by (simp only: parse_quote_unit 3(2) [OF False] option.case prod.case)
    ultimately show ?thesis by (simp only:)
  qed
qed

lemma parse_QuoteJSONString:
  "parse_string_chars (tl (QuoteJSONString s) @ r) = Some (s, r)"
  by (simp add: QuoteJSONString_def parse_quote_units)

subsection \<open>The calendar\<close>










subsection \<open>Dates\<close>











subsection \<open>Values\<close>










subsection \<open>Members\<close>










subsection \<open>Lists\<close>



subsection \<open>Loading what was saved\<close>














subsection \<open>What the effect that loads puts in the list\<close>






subsection \<open>Texts\<close>




subsection \<open>The item under the effect that loads\<close>

lemma storage_load_effect: "load_effect s = Some s1 \<Longrightarrow> storage s1 = storage s"
  by (auto simp add: load_effect_def split: option.splits if_splits json.splits)

subsection \<open>Identifiers under a clock that moves on\<close>

lemma distinct_ids_step:
  assumes "distinct (map task_id (tasks s))"
    and "\<And>now now'. e = Submit now now' \<Longrightarrow> \<forall>t\<in>set (tasks s). task_id t < now"
  shows "distinct (map task_id (tasks (step e s)))"
proof (cases e)
  case (Submit now now')
  with assms(2) have "now \<notin> task_id ` set (tasks s)" by auto
  with assms(1) Submit show ?thesis
    by (simp add: step_def addTask_def tasks_save_effect)
next
  case (Toggle i)
  have "map task_id (tasks (step (Toggle i) s)) = map task_id (tasks s)"
    by (simp add: step_def toggleTask_def tasks_save_effect comp_def)
  with assms(1) Toggle show ?thesis by simp
next
  case (Delete i)
  with assms(1) show ?thesis
    by (simp add: step_def deleteTask_def tasks_save_effect Let_def distinct_map_filter)
next
  case (SaveEdit i)
  have "map task_id (tasks (step (SaveEdit i) s)) = map task_id (tasks s)"
    by (simp add: step_def saveEdit_def tasks_save_effect comp_def)
  with assms(1) SaveEdit show ?thesis by simp
qed (use assms(1) in \<open>simp_all add: step_def clearAllTasks_def startEditing_def cancelEdit_def
  tasks_save_effect\<close>)

lemmas evaluation =
  js_def mount_def load_effect_def callback_throws_def createdAt_of_def initial_def JSON_parse_def
  skip_ws_def is_json_ws_def
  parse_value.simps parse_elements.simps parse_members.simps
  strip_prefix_def parse_number_def parse_fraction_def parse_exponent_def span_digits_def
  is_digit_def digits_value_def Task_of_json_def integer_of_def new_Date_def Date_parse_def
  read_year_def read_digits_def expect_def MonthStart_def InLeapYear_def TimeClip_def
  MakeDate_def MakeDay_def MakeTime_def DayFromYear_def msPerDay_def hex4_def hex_value_def
  escape_unit_def tasks_save_effect trim_def is_WhiteSpace_def valid_text_def

subsection \<open>Runs of events\<close>

lemma run_append: "run (es @ es') s = run es' (run es s)"
  by (induction es arbitrary: s) simp_all

lemma tasks_run_typing: "tasks (run (map ChangeEditingText ys) s) = tasks s"
  by (induction ys arbitrary: s) (simp_all add: step_def)

subsection \<open>Adding a task\<close>

lemma add_appends:
  "(trim v = [] \<longrightarrow>
      tasks (run [ChangeInput v, Submit now now'] s) = tasks s \<and>
      storage (run [ChangeInput v, Submit now now'] s) = storage s \<and>
      console (run [ChangeInput v, Submit now now'] s) = console s) \<and>
   (trim v \<noteq> [] \<longrightarrow>
      tasks (run [ChangeInput v, Submit now now'] s) =
        tasks s @ [\<lparr>task_id = now, task_text = trim v, completed = False,
                     createdAt = TimeValue now'\<rparr>])"
  by (auto simp add: step_def addTask_def tasks_save_effect)

lemma add_appends_example:
  "trim (js ''   '') = [] \<and>
   tasks (run [ChangeInput (js ''   ''), Submit 1700000000000 1700000000001] (initial None)) = [] \<and>
   trim [] = [] \<and>
   tasks (run [ChangeInput [], Submit 1700000000000 1700000000001] (initial None)) = [] \<and>
   trim (js '' buy milk '') = js ''buy milk'' \<and>
   tasks (run [ChangeInput (js '' buy milk ''), Submit 1700000000000 1700000000001] (initial None)) =
     [\<lparr>task_id = 1700000000000, task_text = js ''buy milk'', completed = False,
       createdAt = TimeValue 1700000000001\<rparr>]"
  using add_appends [of "js ''   ''" 1700000000000 1700000000001 "initial None"]
    add_appends [of "[]" 1700000000000 1700000000001 "initial None"]
    add_appends [of "js '' buy milk ''" 1700000000000 1700000000001 "initial None"]
  by (simp add: trim_def js_def is_WhiteSpace_def initial_def)

subsection \<open>The item agrees with the list in every state that is reached\<close>











section \<open>The formats on examples\<close>

text \<open>What the model of \<open>toISOString\<close>, \<open>QuoteJSONString\<close> and \<open>JSON.stringify\<close> gives on
  a few inputs, for comparison with the platform.\<close>

lemma pad_numeral:
  "pad 2 n = [digit (n div 10), digit n]"
  "pad 3 n = [digit (n div 100), digit (n div 10), digit n]"
  "pad 4 n = [digit (n div 1000), digit (n div 100), digit (n div 10), digit n]"
  "pad 6 n = [digit (n div 100000), digit (n div 10000), digit (n div 1000), digit (n div 100),
     digit (n div 10), digit n]"
proof -
  have s: "2 = Suc (Suc 0)" "3 = Suc (Suc (Suc 0))" "4 = Suc (Suc (Suc (Suc 0)))"
    "6 = Suc (Suc (Suc (Suc (Suc (Suc 0)))))"
    by simp_all
  show "pad 2 n = [digit (n div 10), digit n]"
    unfolding s(1) by simp
  show "pad 3 n = [digit (n div 100), digit (n div 10), digit n]"
    unfolding s(2) by (simp add: div_mult2_eq [symmetric])
  show "pad 4 n = [digit (n div 1000), digit (n div 100), digit (n div 10), digit n]"
    unfolding s(3) by (simp add: div_mult2_eq [symmetric])
  show "pad 6 n = [digit (n div 100000), digit (n div 10000), digit (n div 1000), digit (n div 100),
     digit (n div 10), digit n]"
    unfolding s(4) by (simp add: div_mult2_eq [symmetric])
qed

lemma toISOString_example: "toISOString 1700000000000 = js ''2023-11-14T22:13:20.000Z''"
proof -
  have a: "Day 1700000000000 = 19675" "TimeWithinDay 1700000000000 = 80000000"
    by (simp_all add: Day_def TimeWithinDay_def msPerDay_def)
  have b: "YearFromDay 19675 = 2023"
    by (simp add: YearFromDay_def DayFromYear_def Let_def)
  have c: "DayFromYear 2023 = 19358" "InLeapYear 2023 = False"
    by (simp_all add: DayFromYear_def InLeapYear_def)
  have d: "MonthFromDay False 317 = 10" "MonthStart False 10 = 304"
    by (simp_all add: MonthFromDay_def MonthStart_def)
  show ?thesis
    unfolding toISOString_def Let_def a b c
    by (simp add: d year_digits_def pad_numeral digit_def js_def)
qed

lemma toISOString_before_epoch: "toISOString (- 1) = js ''1969-12-31T23:59:59.999Z''"
proof -
  have a: "Day (- 1) = - 1" "TimeWithinDay (- 1) = 86399999"
    by (simp_all add: Day_def TimeWithinDay_def msPerDay_def)
  have b: "YearFromDay (- 1) = 1969"
    by (simp add: YearFromDay_def DayFromYear_def Let_def)
  have c: "DayFromYear 1969 = - 365" "InLeapYear 1969 = False"
    by (simp_all add: DayFromYear_def InLeapYear_def)
  have d: "MonthFromDay False 364 = 11" "MonthStart False 11 = 334"
    by (simp_all add: MonthFromDay_def MonthStart_def)
  show ?thesis
    unfolding toISOString_def Let_def a b c
    by (simp add: d year_digits_def pad_numeral digit_def js_def)
qed

lemma QuoteJSONString_example:
  "QuoteJSONString [97, 34, 92, 10, 1, 55357] =
     [34, 97, 92, 34, 92, 92, 92, 110, 92, 117, 48, 48, 48, 49, 92, 117, 100, 56, 51, 100, 34]"
  by (simp add: QuoteJSONString_def quote_unit_def is_high_surrogate_def is_low_surrogate_def
      unicode_escape_def hex_digit_def)

lemma Number_toString_example: "Number_toString 1700000000000 = js ''1700000000000''"
  by (simp add: Number_toString_def decimal.simps digit_def js_def)

lemma JSON_stringify_example:
  \<open>JSON_stringify [\<lparr>task_id = 1700000000000, task_text = js ''buy milk'', completed = True,
      createdAt = TimeValue 1700000000000\<rparr>] =
   js ''[{"id":1700000000000,"text":"buy milk","completed":true,"createdAt":"2023-11-14T22:13:20.000Z"}]''\<close>
  by (simp add: JSON_stringify_def Task_json_def Date_json_def bool_json_def
      toISOString_example Number_toString_example)
    (simp add: js_def QuoteJSONString_def quote_unit_def is_high_surrogate_def is_low_surrogate_def)

section \<open>C1: what is written to the item\<close>

text \<open>
  C1 (persistence asymmetry). After any event the item is what it was, or removed, or
  the serialisation of the list, and the last only when the list has a task. An event
  that sets the list writes the serialisation whenever the resulting list has a task.
  The serialisation of the empty list is never written. When \<open>deleteTask\<close> leaves no
  task the item is removed; \<open>clearAllTasks\<close> empties the list and removes the item;
  deleting the only task of a list of one leaves the item absent. Mounting, too, leaves
  the item as it was or writes the serialisation of a list that has a task.
\<close>

theorem persistence_asymmetry:
  "(storage (step e s) = storage s \<or> storage (step e s) = None \<or>
      (tasks (step e s) \<noteq> [] \<and> storage (step e s) = Some (JSON_stringify (tasks (step e s))))) \<and>
   (sets_tasks e s \<and> tasks (step e s) \<noteq> [] \<longrightarrow>
      storage (step e s) = Some (JSON_stringify (tasks (step e s)))) \<and>
   (storage (step e s) = Some (JSON_stringify []) \<longrightarrow> storage s = Some (JSON_stringify [])) \<and>
   (tasks (step (Delete i) s) = [] \<longrightarrow> storage (step (Delete i) s) = None) \<and>
   tasks (step ClearAll s) = [] \<and> storage (step ClearAll s) = None \<and>
   (tasks s = [t] \<longrightarrow>
      tasks (step (Delete (task_id t)) s) = [] \<and> storage (step (Delete (task_id t)) s) = None) \<and>
   (mount slot = Some s' \<longrightarrow>
      storage s' = slot \<or> (tasks s' \<noteq> [] \<and> storage s' = Some (JSON_stringify (tasks s'))))"
proof -
  have written: "storage (step e s) =
      (if sets_tasks e s \<and> tasks (step e s) \<noteq> [] then Some (JSON_stringify (tasks (step e s)))
       else if (\<exists>i. e = Delete i) \<and> tasks (step e s) = [] \<or> e = ClearAll then None
       else storage s)"
    by (cases e)
      (simp_all add: step_def storage_save_effect tasks_save_effect addTask_def toggleTask_def
        deleteTask_def clearAllTasks_def startEditing_def saveEdit_def cancelEdit_def Let_def)
  have c1: "storage (step e s) = storage s \<or> storage (step e s) = None \<or>
      (tasks (step e s) \<noteq> [] \<and> storage (step e s) = Some (JSON_stringify (tasks (step e s))))"
    unfolding written by simp
  have c2: "sets_tasks e s \<and> tasks (step e s) \<noteq> [] \<longrightarrow>
      storage (step e s) = Some (JSON_stringify (tasks (step e s)))"
    unfolding written by simp
  have c3: "storage (step e s) = Some (JSON_stringify []) \<longrightarrow> storage s = Some (JSON_stringify [])"
    unfolding written using JSON_stringify_not_empty_list [of "tasks (step e s)"]
    by (auto split: if_splits)
  have c4: "tasks (step (Delete i) s) = [] \<longrightarrow> storage (step (Delete i) s) = None" for i
    by (simp add: step_def storage_save_effect tasks_save_effect deleteTask_def Let_def)
  have c5: "tasks (step ClearAll s) = [] \<and> storage (step ClearAll s) = None"
    by (simp add: step_def storage_save_effect tasks_save_effect clearAllTasks_def)
  have c6: "tasks s = [t] \<longrightarrow>
      tasks (step (Delete (task_id t)) s) = [] \<and> storage (step (Delete (task_id t)) s) = None"
    by (simp add: step_def storage_save_effect tasks_save_effect deleteTask_def Let_def)
  have c7: "mount slot = Some s' \<longrightarrow>
      storage s' = slot \<or> (tasks s' \<noteq> [] \<and> storage s' = Some (JSON_stringify (tasks s')))"
  proof
    assume "mount slot = Some s'"
    then obtain s1 where l: "load_effect (initial slot) = Some s1" and s': "s' = save_effect s1"
      by (auto simp add: mount_def split: option.splits)
    from l have "storage s1 = slot"
      using storage_load_effect [of "initial slot" s1] by (simp add: initial_def)
    then show "storage s' = slot \<or> (tasks s' \<noteq> [] \<and> storage s' = Some (JSON_stringify (tasks s')))"
      by (simp add: s' storage_save_effect tasks_save_effect)
  qed
  from c1 c2 c3 c4 c5 c6 c7 show ?thesis by blast
qed

theorem persistence_asymmetry_witness:
  "tasks (step (Delete 7)
      ((initial (Some (js ''x'')))\<lparr>tasks := [\<lparr>task_id = 7, task_text = js ''a'', completed = False, createdAt = TimeValue 7\<rparr>]\<rparr>)) = [] \<and>
   storage (step (Delete 7)
      ((initial (Some (js ''x'')))\<lparr>tasks := [\<lparr>task_id = 7, task_text = js ''a'', completed = False, createdAt = TimeValue 7\<rparr>]\<rparr>)) = None \<and>
   storage (step (Toggle 7)
      ((initial (Some (js ''x'')))\<lparr>tasks := [\<lparr>task_id = 7, task_text = js ''a'', completed = False, createdAt = TimeValue 7\<rparr>]\<rparr>)) =
     Some (JSON_stringify [\<lparr>task_id = 7, task_text = js ''a'', completed = True, createdAt = TimeValue 7\<rparr>]) \<and>
   storage (step (Toggle 7) (initial (Some (js ''x'')))) = Some (js ''x'') \<and>
   storage (step (Toggle 7) (initial (Some (JSON_stringify [])))) = Some (JSON_stringify []) \<and>
   storage (initial (Some (JSON_stringify []))) = Some (JSON_stringify []) \<and>
   mount None = Some (initial None) \<and> storage (initial None) = None"
  using persistence_asymmetry [of "Delete 7" "(initial (Some (js ''x'')))\<lparr>tasks := [\<lparr>task_id = 7, task_text = js ''a'', completed = False, createdAt = TimeValue 7\<rparr>]\<rparr>" 7
      "\<lparr>task_id = 7, task_text = js ''a'', completed = False, createdAt = TimeValue 7\<rparr>"
      None "initial None"]
    persistence_asymmetry [of "Toggle 7" "(initial (Some (js ''x'')))\<lparr>tasks := [\<lparr>task_id = 7, task_text = js ''a'', completed = False, createdAt = TimeValue 7\<rparr>]\<rparr>" 7
      "\<lparr>task_id = 7, task_text = js ''a'', completed = False, createdAt = TimeValue 7\<rparr>"
      None "initial None"]
    persistence_asymmetry [of "Toggle 7" "initial (Some (JSON_stringify []))" 7
      "\<lparr>task_id = 7, task_text = js ''a'', completed = False, createdAt = TimeValue 7\<rparr>"
      None "initial None"]
  by (simp add: initial_def step_def toggleTask_def deleteTask_def storage_save_effect tasks_save_effect
      mount_def load_effect_def save_effect_def)

section \<open>C2: adding a task\<close>

text \<open>
  C2 (add validity), evaluated where it fails. The rest of the claim holds (lemma
  \<open>add_appends\<close>: a blank input changes nothing, and any other appends exactly one
  task, not completed, with the trimmed text and the readings of the clock, the tasks
  before it unchanged). But the identifier is the reading of \<open>Date.now()\<close> and nothing
  else: after one task was added at the reading \<open>1700000000000\<close>, a second add at the
  same reading appends a task whose identifier is the identifier of the task already in
  the list.
\<close>

theorem add_repeats_id:
  "tasks (run [ChangeInput (js ''a''), Submit 1700000000000 1700000000000] (initial None)) =
     [\<lparr>task_id = 1700000000000, task_text = js ''a'', completed = False,
       createdAt = TimeValue 1700000000000\<rparr>] \<and>
   tasks (run [ChangeInput (js ''b''), Submit 1700000000000 1700000000000]
       (run [ChangeInput (js ''a''), Submit 1700000000000 1700000000000] (initial None))) =
     [\<lparr>task_id = 1700000000000, task_text = js ''a'', completed = False,
       createdAt = TimeValue 1700000000000\<rparr>,
      \<lparr>task_id = 1700000000000, task_text = js ''b'', completed = False,
       createdAt = TimeValue 1700000000000\<rparr>] \<and>
   task_id (last (tasks (run [ChangeInput (js ''b''), Submit 1700000000000 1700000000000]
       (run [ChangeInput (js ''a''), Submit 1700000000000 1700000000000] (initial None))))) \<in>
     task_id ` set (tasks (run [ChangeInput (js ''a''), Submit 1700000000000 1700000000000]
       (initial None)))"
  by (simp add: initial_def step_def addTask_def tasks_save_effect trim_def js_def
      is_WhiteSpace_def Let_def)

section \<open>C3: identifiers\<close>

text \<open>
  C3 (uniqueness of identifiers), evaluated where it fails. Two tasks added while
  \<open>Date.now()\<close> gives the same reading get the same identifier; one toggle of that
  identifier then completes both tasks, and one delete removes both. (Lemma
  \<open>distinct_ids_step\<close> above is the case that works: identifiers stay distinct as
  long as every reading of the clock is past the identifiers in the list.)
\<close>

theorem id_collision:
  "map task_id (tasks (run [ChangeInput (js ''a''), Submit 1700000000000 1700000000000,
      ChangeInput (js ''b''), Submit 1700000000000 1700000000000] (initial None))) =
     [1700000000000, 1700000000000] \<and>
   map task_text (tasks (run [ChangeInput (js ''a''), Submit 1700000000000 1700000000000,
      ChangeInput (js ''b''), Submit 1700000000000 1700000000000] (initial None))) =
     [js ''a'', js ''b''] \<and>
   map completed (tasks (run [ChangeInput (js ''a''), Submit 1700000000000 1700000000000,
      ChangeInput (js ''b''), Submit 1700000000000 1700000000000,
      Toggle 1700000000000] (initial None))) = [True, True] \<and>
   tasks (run [ChangeInput (js ''a''), Submit 1700000000000 1700000000000,
      ChangeInput (js ''b''), Submit 1700000000000 1700000000000,
      Delete 1700000000000] (initial None)) = []"
  by (simp add: initial_def step_def addTask_def toggleTask_def deleteTask_def tasks_save_effect
      trim_def js_def is_WhiteSpace_def Let_def)

section \<open>C4: the filtered view\<close>

text \<open>
  C4 (filter partition). The view under \<open>active\<close> is the tasks that are not completed,
  the view under \<open>completed\<close> those that are, the view under \<open>all\<close> the whole list. The
  two partial views are subsequences of the list (they keep its order), they have no
  task in common, the whole list is an interleaving of the two, and their lengths add
  up to its length.
\<close>

theorem filter_partition:
  "filteredTasks (step (SetFilter Filter_active) s) = filter (\<lambda>t. \<not> completed t) (tasks s) \<and>
   filteredTasks (step (SetFilter Filter_completed) s) = filter completed (tasks s) \<and>
   filteredTasks (step (SetFilter Filter_all) s) = tasks s \<and>
   subseq (filteredTasks (step (SetFilter Filter_active) s)) (tasks s) \<and>
   subseq (filteredTasks (step (SetFilter Filter_completed) s)) (tasks s) \<and>
   set (filteredTasks (step (SetFilter Filter_active) s)) \<inter>
     set (filteredTasks (step (SetFilter Filter_completed) s)) = {} \<and>
   filteredTasks (step (SetFilter Filter_all) s) \<in>
     shuffles (filteredTasks (step (SetFilter Filter_completed) s))
       (filteredTasks (step (SetFilter Filter_active) s)) \<and>
   length (filteredTasks (step (SetFilter Filter_active) s)) +
     length (filteredTasks (step (SetFilter Filter_completed) s)) = length (tasks s)"
proof -
  have a: "filteredTasks (step (SetFilter Filter_active) s) = filter (\<lambda>t. \<not> completed t) (tasks s)"
    by (simp add: step_def filteredTasks_def)
  have c: "filteredTasks (step (SetFilter Filter_completed) s) = filter completed (tasks s)"
    by (simp add: step_def filteredTasks_def)
  have l: "filteredTasks (step (SetFilter Filter_all) s) = tasks s"
    by (simp add: step_def filteredTasks_def)
  have d: "set (filter (\<lambda>t. \<not> completed t) (tasks s)) \<inter> set (filter completed (tasks s)) = {}"
    by auto
  have m: "tasks s \<in> shuffles (filter completed (tasks s)) (filter (\<lambda>t. \<not> completed t) (tasks s))"
    by (rule partition_in_shuffles)
  have n: "length (filter (\<lambda>t. \<not> completed t) (tasks s)) + length (filter completed (tasks s)) =
      length (tasks s)"
    using sum_length_filter_compl [of completed "tasks s"] by simp
  show ?thesis
    unfolding a c l using d m n by (simp add: subseq_filter_left)
qed

section \<open>C5: editing and leaving a text as it was\<close>

text \<open>
  C5 as stated fails on a text that is not trimmed. A task read from the item with the
  text \<open>" a"\<close> has the text \<open>"a"\<close> after \<open>startEditing\<close> with its own text and
  \<open>saveEdit\<close>; for one with the text \<open>" "\<close> the same two steps change nothing and
  leave the session open.
\<close>

theorem edit_round_trip_counterexample:
  \<open>map_option (\<lambda>s. (map task_text (tasks s),
        map task_text (tasks (run [StartEditing 1 (js '' a''), SaveEdit 1] s))))
     (mount (Some (js ''[{"id":1,"text":" a","completed":false,"createdAt":"2024-01-01T00:00:00.000Z"}]''))) =
     Some ([js '' a''], [js ''a'']) \<and>
   map_option (\<lambda>s. (map task_text (tasks s),
        editingId (run [StartEditing 2 (js '' ''), SaveEdit 2] s)))
     (mount (Some (js ''[{"id":2,"text":" ","completed":false,"createdAt":"2024-01-01T00:00:00.000Z"}]''))) =
     Some ([js '' ''], Some 2)\<close>
  by (simp add: evaluation step_def startEditing_def saveEdit_def)

text \<open>
  C5 (edit round trip), amended. Let \<open>t\<close> be a task of the list whose text is not
  empty and trimmed. After \<open>startEditing\<close> with the identifier and the text of \<open>t\<close>
  and \<open>saveEdit\<close> with that identifier, the session is closed (\<open>editingId\<close> is
  \<open>null\<close>, \<open>editingText\<close> is empty), the list has the same length, and every
  position that holds \<open>t\<close>, or a task with another identifier, holds what it held;
  the whole list is unchanged when no other task shares the identifier. And after
  \<open>startEditing\<close>, any typing in the edit field and \<open>cancelEdit\<close>, the list of tasks
  is unchanged and the session is closed, whatever the state and the scratch text.
\<close>

theorem edit_round_trip:
  "(t \<in> set (tasks s) \<and> valid_text (task_text t) \<longrightarrow>
      editingId (run [StartEditing (task_id t) (task_text t), SaveEdit (task_id t)] s) = None \<and>
      editingText (run [StartEditing (task_id t) (task_text t), SaveEdit (task_id t)] s) = [] \<and>
      length (tasks (run [StartEditing (task_id t) (task_text t), SaveEdit (task_id t)] s)) =
        length (tasks s) \<and>
      (\<forall>k < length (tasks s). tasks s ! k = t \<or> task_id (tasks s ! k) \<noteq> task_id t \<longrightarrow>
         tasks (run [StartEditing (task_id t) (task_text t), SaveEdit (task_id t)] s) ! k =
           tasks s ! k) \<and>
      ((\<forall>u\<in>set (tasks s). task_id u = task_id t \<longrightarrow> u = t) \<longrightarrow>
         tasks (run [StartEditing (task_id t) (task_text t), SaveEdit (task_id t)] s) = tasks s)) \<and>
   tasks (run (StartEditing i x # map ChangeEditingText ys @ [CancelEdit]) s) = tasks s \<and>
   editingId (run (StartEditing i x # map ChangeEditingText ys @ [CancelEdit]) s) = None \<and>
   editingText (run (StartEditing i x # map ChangeEditingText ys @ [CancelEdit]) s) = []"
proof -
  let ?es = "[StartEditing (task_id t) (task_text t), SaveEdit (task_id t)]"
  let ?f = "\<lambda>u. if task_id u = task_id t then u\<lparr>task_text := task_text t\<rparr> else u"
  have save: "editingId (run ?es s) = None \<and> editingText (run ?es s) = [] \<and>
      tasks (run ?es s) = map ?f (tasks s)" if "valid_text (task_text t)"
    using that
    by (simp add: valid_text_def step_def startEditing_def saveEdit_def tasks_save_effect
        session_save_effect)
  have ft: "?f t = t" by simp
  have first: "editingId (run ?es s) = None \<and> editingText (run ?es s) = [] \<and>
      length (tasks (run ?es s)) = length (tasks s) \<and>
      (\<forall>k < length (tasks s). tasks s ! k = t \<or> task_id (tasks s ! k) \<noteq> task_id t \<longrightarrow>
         tasks (run ?es s) ! k = tasks s ! k) \<and>
      ((\<forall>u\<in>set (tasks s). task_id u = task_id t \<longrightarrow> u = t) \<longrightarrow> tasks (run ?es s) = tasks s)"
    if v: "valid_text (task_text t)"
  proof -
    have "map ?f (tasks s) = tasks s" if "\<forall>u\<in>set (tasks s). task_id u = task_id t \<longrightarrow> u = t"
    proof (rule map_idI)
      fix u assume "u \<in> set (tasks s)"
      with that show "?f u = u" by auto
    qed
    moreover have "map ?f (tasks s) ! k = tasks s ! k"
      if "k < length (tasks s)" "tasks s ! k = t \<or> task_id (tasks s ! k) \<noteq> task_id t" for k
      using that by auto
    ultimately show ?thesis
      using save [OF v] by simp
  qed
  let ?cs = "StartEditing i x # map ChangeEditingText ys @ [CancelEdit]"
  have "run ?cs s = step CancelEdit (run (map ChangeEditingText ys) (step (StartEditing i x) s))"
    by (simp add: run_append)
  then have second: "tasks (run ?cs s) = tasks s \<and> editingId (run ?cs s) = None \<and>
      editingText (run ?cs s) = []"
    by (simp add: step_def cancelEdit_def tasks_run_typing startEditing_def)
  from first second show ?thesis by blast
qed

theorem edit_round_trip_witness:
  "map task_text (tasks (run [StartEditing 1 (js ''old''), SaveEdit 1]
      ((initial None)\<lparr>tasks := [\<lparr>task_id = 1, task_text = js ''old'', completed = False,
                                 createdAt = TimeValue 1\<rparr>,
                               \<lparr>task_id = 2, task_text = js ''other'', completed = True,
                                 createdAt = TimeValue 2\<rparr>]\<rparr>))) = [js ''old'', js ''other''] \<and>
   editingId (run [StartEditing 1 (js ''old''), SaveEdit 1]
      ((initial None)\<lparr>tasks := [\<lparr>task_id = 1, task_text = js ''old'', completed = False,
                                 createdAt = TimeValue 1\<rparr>,
                               \<lparr>task_id = 2, task_text = js ''other'', completed = True,
                                 createdAt = TimeValue 2\<rparr>]\<rparr>)) = None \<and>
   editingText (run [StartEditing 1 (js ''old''), SaveEdit 1]
      ((initial None)\<lparr>tasks := [\<lparr>task_id = 1, task_text = js ''old'', completed = False,
                                 createdAt = TimeValue 1\<rparr>,
                               \<lparr>task_id = 2, task_text = js ''other'', completed = True,
                                 createdAt = TimeValue 2\<rparr>]\<rparr>)) = [] \<and>
   map task_text (tasks (run [StartEditing 1 (js ''old''), ChangeEditingText (js ''new''), CancelEdit]
      ((initial None)\<lparr>tasks := [\<lparr>task_id = 1, task_text = js ''old'', completed = False,
                                 createdAt = TimeValue 1\<rparr>,
                               \<lparr>task_id = 2, task_text = js ''other'', completed = True,
                                 createdAt = TimeValue 2\<rparr>]\<rparr>))) = [js ''old'', js ''other'']"
  using edit_round_trip [of "\<lparr>task_id = 1, task_text = js ''old'', completed = False,
                                 createdAt = TimeValue 1\<rparr>"
      "(initial None)\<lparr>tasks := [\<lparr>task_id = 1, task_text = js ''old'', completed = False,
                                 createdAt = TimeValue 1\<rparr>,
                               \<lparr>task_id = 2, task_text = js ''other'', completed = True,
                                 createdAt = TimeValue 2\<rparr>]\<rparr>" 1 "js ''old''" "[js ''new'']"]
  by (simp add: initial_def valid_text_def trim_def is_WhiteSpace_def js_def)

section \<open>C6: loading an item that cannot be read\<close>

text \<open>
  C6 as stated fails on the report. The empty string is not JSON, and an item holding
  it, like an absent item, is skipped by the guard of the effect: the list stays empty
  and nothing is given to \<open>console.error\<close>.
\<close>

theorem load_failure_counterexample:
  "JSON_parse [] = None \<and> mount (Some []) = Some (initial (Some [])) \<and>
   console (initial (Some [])) = [] \<and> mount None = Some (initial None) \<and>
   console (initial None) = []"
  by (simp add: JSON_parse_def parse_value.simps [of "[]"] skip_ws_def mount_def load_effect_def
      initial_def save_effect_def)

text \<open>
  C6 (load failure safety), amended. When the item is absent or the empty string,
  mounting ends in the initial state and nothing is reported. When it is a non-empty
  string that \<open>JSON.parse\<close> rejects, mounting ends in the initial state but for one
  \<open>SyntaxError\<close> on the console. When it parses to a value that is not an array, or to
  an array on an element of which the callback throws, the same with one \<open>TypeError\<close>.
  Conversely, whenever mounting ends with something on the console, the list is empty,
  the item is a non-empty string, and the console holds one \<open>SyntaxError\<close> and the
  string is not JSON, or one \<open>TypeError\<close> and the string parses to one of the values
  just named. In each of these states the list is empty, the inputs, the filter and the
  edit session are those of a component mounted on an absent item, and the item itself
  is left as it was. Mounting has no state in the model only on an item that parses to
  an array on which nothing throws and which is not a list of the declared type: the
  list is then set, and nothing is reported.
\<close>

theorem load_failure_safety:
  "(slot = None \<or> slot = Some [] \<longrightarrow> mount slot = Some (initial slot)) \<and>
   (v \<noteq> [] \<and> JSON_parse v = None \<longrightarrow>
      mount (Some v) = Some ((initial (Some v))\<lparr>console := [SyntaxError]\<rparr>)) \<and>
   (v \<noteq> [] \<and> JSON_parse v = Some j \<and>
      (case j of JArr vs \<Rightarrow> list_ex callback_throws vs | _ \<Rightarrow> True) \<longrightarrow>
      mount (Some v) = Some ((initial (Some v))\<lparr>console := [TypeError]\<rparr>)) \<and>
   (mount slot = Some s' \<and> console s' \<noteq> [] \<longrightarrow>
      tasks s' = [] \<and>
      (\<exists>x. slot = Some x \<and> x \<noteq> [] \<and>
         (case JSON_parse x of
            None \<Rightarrow> console s' = [SyntaxError]
          | Some (JArr vs) \<Rightarrow> list_ex callback_throws vs \<and> console s' = [TypeError]
          | Some _ \<Rightarrow> console s' = [TypeError]))) \<and>
   (mount slot = None \<longrightarrow>
      (\<exists>x vs. slot = Some x \<and> JSON_parse x = Some (JArr vs) \<and>
         \<not> list_ex callback_throws vs \<and> Tasks_of_json vs = None)) \<and>
   tasks (initial slot) = [] \<and>
   tasks ((initial slot)\<lparr>console := [e]\<rparr>) = tasks (initial None) \<and>
   inputValue ((initial slot)\<lparr>console := [e]\<rparr>) = inputValue (initial None) \<and>
   filter_type ((initial slot)\<lparr>console := [e]\<rparr>) = filter_type (initial None) \<and>
   editingId ((initial slot)\<lparr>console := [e]\<rparr>) = editingId (initial None) \<and>
   editingText ((initial slot)\<lparr>console := [e]\<rparr>) = editingText (initial None) \<and>
   storage ((initial slot)\<lparr>console := [e]\<rparr>) = slot"
proof -
  have a: "slot = None \<or> slot = Some [] \<longrightarrow> mount slot = Some (initial slot)"
    by (auto simp add: mount_def load_effect_def initial_def save_effect_def)
  have b: "v \<noteq> [] \<and> JSON_parse v = None \<longrightarrow>
      mount (Some v) = Some ((initial (Some v))\<lparr>console := [SyntaxError]\<rparr>)"
    by (simp add: mount_def load_effect_def initial_def save_effect_def)
  have c: "v \<noteq> [] \<and> JSON_parse v = Some j \<and>
      (case j of JArr vs \<Rightarrow> list_ex callback_throws vs | _ \<Rightarrow> True) \<longrightarrow>
      mount (Some v) = Some ((initial (Some v))\<lparr>console := [TypeError]\<rparr>)"
    by (cases j) (simp_all add: mount_def load_effect_def initial_def save_effect_def)
  have d: "mount slot = Some s' \<and> console s' \<noteq> [] \<longrightarrow>
      tasks s' = [] \<and>
      (\<exists>x. slot = Some x \<and> x \<noteq> [] \<and>
         (case JSON_parse x of
            None \<Rightarrow> console s' = [SyntaxError]
          | Some (JArr vs) \<Rightarrow> list_ex callback_throws vs \<and> console s' = [TypeError]
          | Some _ \<Rightarrow> console s' = [TypeError]))"
    by (auto simp add: mount_def load_effect_def initial_def save_effect_def
        split: option.splits if_splits json.splits)
  have n: "mount slot = None \<longrightarrow>
      (\<exists>x vs. slot = Some x \<and> JSON_parse x = Some (JArr vs) \<and>
         \<not> list_ex callback_throws vs \<and> Tasks_of_json vs = None)"
    by (auto simp add: mount_def load_effect_def initial_def
        split: option.splits if_splits json.splits)
  from a b c d n show ?thesis by (simp add: initial_def)
qed

theorem load_failure_safety_witness:
  \<open>mount None = Some (initial None) \<and>
   JSON_parse (js ''{"id":'') = None \<and>
   mount (Some (js ''{"id":'')) = Some ((initial (Some (js ''{"id":'')))\<lparr>console := [SyntaxError]\<rparr>) \<and>
   JSON_parse (js ''{"a":1}'') = Some (JObj [(js ''a'', JNum 1 0)]) \<and>
   mount (Some (js ''{"a":1}'')) = Some ((initial (Some (js ''{"a":1}'')))\<lparr>console := [TypeError]\<rparr>) \<and>
   JSON_parse (js ''[null]'') = Some (JArr [JNull]) \<and>
   mount (Some (js ''[null]'')) = Some ((initial (Some (js ''[null]'')))\<lparr>console := [TypeError]\<rparr>) \<and>
   JSON_parse (js ''[{"createdAt":{"toString":0}}]'') =
     Some (JArr [JObj [(js ''createdAt'', JObj [(js ''toString'', JNum 0 0)])]]) \<and>
   mount (Some (js ''[{"createdAt":{"toString":0}}]'')) =
     Some ((initial (Some (js ''[{"createdAt":{"toString":0}}]'')))\<lparr>console := [TypeError]\<rparr>) \<and>
   tasks ((initial (Some (js ''{"id":'')))\<lparr>console := [SyntaxError]\<rparr>) = [] \<and>
   mount (Some (js ''[1]'')) = None \<and>
   JSON_parse (js ''[1]'') = Some (JArr [JNum 1 0]) \<and>
   \<not> list_ex callback_throws [JNum 1 0] \<and> Tasks_of_json [JNum 1 0] = None\<close>
proof -
  have p1: \<open>JSON_parse (js ''{"id":'') = None\<close>
    by (simp add: evaluation)
  have p2: \<open>JSON_parse (js ''{"a":1}'') = Some (JObj [(js ''a'', JNum 1 0)])\<close>
    by (simp add: evaluation)
  have p3: \<open>JSON_parse (js ''[null]'') = Some (JArr [JNull])\<close>
    by (simp add: evaluation)
  have p4: \<open>JSON_parse (js ''[{"createdAt":{"toString":0}}]'') =
     Some (JArr [JObj [(js ''createdAt'', JObj [(js ''toString'', JNum 0 0)])]])\<close>
    by (simp add: evaluation)
  have t3: \<open>list_ex callback_throws [JNull]\<close>
    by (simp add: callback_throws_def)
  have t4: \<open>list_ex callback_throws [JObj [(js ''createdAt'', JObj [(js ''toString'', JNum 0 0)])]]\<close>
    by (simp add: callback_throws_def createdAt_of_def)
  have n: \<open>js ''{"id":'' \<noteq> []\<close> \<open>js ''{"a":1}'' \<noteq> []\<close> \<open>js ''[null]'' \<noteq> []\<close>
    \<open>js ''[{"createdAt":{"toString":0}}]'' \<noteq> []\<close>
    by (simp_all add: js_def)
  from load_failure_safety [of None \<open>js ''{"id":''\<close> JNull "initial None" SyntaxError]
  have w1: \<open>mount None = Some (initial None) \<and>
     mount (Some (js ''{"id":'')) = Some ((initial (Some (js ''{"id":'')))\<lparr>console := [SyntaxError]\<rparr>)\<close>
    using p1 n by simp
  from load_failure_safety [of None \<open>js ''{"a":1}''\<close> \<open>JObj [(js ''a'', JNum 1 0)]\<close> "initial None" TypeError]
  have w2: \<open>mount (Some (js ''{"a":1}'')) = Some ((initial (Some (js ''{"a":1}'')))\<lparr>console := [TypeError]\<rparr>)\<close>
    using p2 n by simp
  from load_failure_safety [of None \<open>js ''[null]''\<close> "JArr [JNull]" "initial None" TypeError]
  have w3: \<open>mount (Some (js ''[null]'')) = Some ((initial (Some (js ''[null]'')))\<lparr>console := [TypeError]\<rparr>)\<close>
    using p3 t3 n by simp
  from load_failure_safety [of None \<open>js ''[{"createdAt":{"toString":0}}]''\<close>
      \<open>JArr [JObj [(js ''createdAt'', JObj [(js ''toString'', JNum 0 0)])]]\<close> "initial None" TypeError]
  have w4: \<open>mount (Some (js ''[{"createdAt":{"toString":0}}]'')) =
     Some ((initial (Some (js ''[{"createdAt":{"toString":0}}]'')))\<lparr>console := [TypeError]\<rparr>)\<close>
    using p4 t4 n by simp
  from load_failure_safety [of \<open>Some (js ''{"id":'')\<close> \<open>js ''{"id":''\<close> JNull
      \<open>(initial (Some (js ''{"id":'')))\<lparr>console := [SyntaxError]\<rparr>\<close> SyntaxError]
  have w5: \<open>tasks ((initial (Some (js ''{"id":'')))\<lparr>console := [SyntaxError]\<rparr>) = []\<close>
    using w1 by simp
  have p6: \<open>JSON_parse (js ''[1]'') = Some (JArr [JNum 1 0])\<close>
    by (simp add: evaluation)
  have m6: \<open>mount (Some (js ''[1]'')) = None\<close>
    by (simp add: evaluation)
  from load_failure_safety [of \<open>Some (js ''[1]'')\<close> \<open>js ''[1]''\<close> JNull "initial None" TypeError]
  have w6: \<open>\<not> list_ex callback_throws [JNum 1 0] \<and> Tasks_of_json [JNum 1 0] = None\<close>
    using m6 p6 by simp
  from w1 w2 w3 w4 w5 w6 m6 p1 p2 p3 p4 p6 show ?thesis by simp
qed

section \<open>C7: toggling a task\<close>

text \<open>
  C7 (toggle pairing). Toggling the same identifier twice gives back the list of tasks.
  One toggle maps over the list in order and negates \<open>completed\<close> on the tasks with
  that identifier; identifiers, texts and dates of creation stay as they are, tasks
  with another identifier are kept, and when no task has the identifier the list is
  unchanged and nothing is reported.
\<close>

theorem toggle_pairing:
  "tasks (run [Toggle i, Toggle i] s) = tasks s \<and>
   tasks (step (Toggle i) s) =
     map (\<lambda>t. if task_id t = i then t\<lparr>completed := \<not> completed t\<rparr> else t) (tasks s) \<and>
   map task_id (tasks (step (Toggle i) s)) = map task_id (tasks s) \<and>
   map task_text (tasks (step (Toggle i) s)) = map task_text (tasks s) \<and>
   map createdAt (tasks (step (Toggle i) s)) = map createdAt (tasks s) \<and>
   (\<forall>t \<in> set (tasks s). task_id t \<noteq> i \<longrightarrow> t \<in> set (tasks (step (Toggle i) s))) \<and>
   (i \<notin> task_id ` set (tasks s) \<longrightarrow>
      tasks (step (Toggle i) s) = tasks s \<and> console (step (Toggle i) s) = console s)"
proof -
  let ?f = "\<lambda>t. if task_id t = i then t\<lparr>completed := \<not> completed t\<rparr> else t"
  have twice: "?f (?f t) = t" for t :: Task by simp
  have t1: "tasks (step (Toggle i) s) = map ?f (tasks s)" for s
    by (simp add: step_def toggleTask_def tasks_save_effect)
  have "tasks (run [Toggle i, Toggle i] s) = map ?f (map ?f (tasks s))"
    by (simp add: t1)
  also have "\<dots> = tasks s"
    unfolding map_map comp_def twice by simp
  finally have a: "tasks (run [Toggle i, Toggle i] s) = tasks s" .
  have b: "i \<notin> task_id ` set (tasks s) \<longrightarrow> map ?f (tasks s) = tasks s"
  proof
    assume "i \<notin> task_id ` set (tasks s)"
    then have "?f t = t" if "t \<in> set (tasks s)" for t
      using that by auto
    then show "map ?f (tasks s) = tasks s"
      by (rule map_idI)
  qed
  have c: "console (step (Toggle i) s) = console s"
    by (simp add: step_def toggleTask_def session_save_effect)
  show ?thesis
    using a b c by (auto simp add: t1 comp_def intro!: image_eqI)
qed

theorem toggle_pairing_witness:
  "tasks (run [Toggle 1, Toggle 1]
      ((initial None)\<lparr>tasks := [\<lparr>task_id = 1, task_text = js ''a'', completed = False, createdAt = TimeValue 5\<rparr>,
                               \<lparr>task_id = 2, task_text = js ''b'', completed = True, createdAt = TimeValue 6\<rparr>]\<rparr>)) =
     [\<lparr>task_id = 1, task_text = js ''a'', completed = False, createdAt = TimeValue 5\<rparr>,
      \<lparr>task_id = 2, task_text = js ''b'', completed = True, createdAt = TimeValue 6\<rparr>] \<and>
   tasks (step (Toggle 1)
      ((initial None)\<lparr>tasks := [\<lparr>task_id = 1, task_text = js ''a'', completed = False, createdAt = TimeValue 5\<rparr>,
                               \<lparr>task_id = 2, task_text = js ''b'', completed = True, createdAt = TimeValue 6\<rparr>]\<rparr>)) =
     [\<lparr>task_id = 1, task_text = js ''a'', completed = True, createdAt = TimeValue 5\<rparr>,
      \<lparr>task_id = 2, task_text = js ''b'', completed = True, createdAt = TimeValue 6\<rparr>] \<and>
   tasks (step (Toggle 3)
      ((initial None)\<lparr>tasks := [\<lparr>task_id = 1, task_text = js ''a'', completed = False, createdAt = TimeValue 5\<rparr>,
                               \<lparr>task_id = 2, task_text = js ''b'', completed = True, createdAt = TimeValue 6\<rparr>]\<rparr>)) =
     [\<lparr>task_id = 1, task_text = js ''a'', completed = False, createdAt = TimeValue 5\<rparr>,
      \<lparr>task_id = 2, task_text = js ''b'', completed = True, createdAt = TimeValue 6\<rparr>]"
  using toggle_pairing [of 1 "(initial None)\<lparr>tasks := [\<lparr>task_id = 1, task_text = js ''a'', completed = False, createdAt = TimeValue 5\<rparr>,
                               \<lparr>task_id = 2, task_text = js ''b'', completed = True, createdAt = TimeValue 6\<rparr>]\<rparr>"]
    toggle_pairing [of 3 "(initial None)\<lparr>tasks := [\<lparr>task_id = 1, task_text = js ''a'', completed = False, createdAt = TimeValue 5\<rparr>,
                               \<lparr>task_id = 2, task_text = js ''b'', completed = True, createdAt = TimeValue 6\<rparr>]\<rparr>"]
  by (simp add: initial_def)

section \<open>C8: the texts of the tasks\<close>




section \<open>C9: saving and loading\<close>




section \<open>C10: saving an edit\<close>

text \<open>
  C10 (the edit session on save). When the scratch text trims to the empty string,
  \<open>saveEdit\<close> changes nothing at all: the list and the session stay as they are. When it
  trims to a non-empty string the session is closed (\<open>editingId\<close> is \<open>null\<close>,
  \<open>editingText\<close> is empty) whether or not a task has the identifier, and the list is
  unchanged when none has.
\<close>

theorem saveEdit_session:
  "(trim (editingText s) = [] \<longrightarrow> step (SaveEdit i) s = s) \<and>
   (trim (editingText s) \<noteq> [] \<longrightarrow>
      editingId (step (SaveEdit i) s) = None \<and> editingText (step (SaveEdit i) s) = [] \<and>
      (i \<notin> task_id ` set (tasks s) \<longrightarrow> tasks (step (SaveEdit i) s) = tasks s))"
proof -
  let ?f = "\<lambda>task. if task_id task = i then task\<lparr>task_text := trim (editingText s)\<rparr> else task"
  have "map ?f (tasks s) = tasks s" if "i \<notin> task_id ` set (tasks s)"
  proof (rule map_idI)
    fix t assume "t \<in> set (tasks s)"
    with that show "?f t = t" by auto
  qed
  then show ?thesis
    by (simp add: step_def saveEdit_def tasks_save_effect session_save_effect)
qed

theorem saveEdit_session_witness:
  "trim (js ''  '') = [] \<and>
   editingId (step (SaveEdit 1) ((initial None)\<lparr>editingId := Some 1, editingText := js ''  ''\<rparr>)) = Some 1 \<and>
   editingText (step (SaveEdit 1) ((initial None)\<lparr>editingId := Some 1, editingText := js ''  ''\<rparr>)) = js ''  '' \<and>
   trim (js '' x'') = js ''x'' \<and>
   editingId (step (SaveEdit 1)
     ((initial None)\<lparr>tasks := [\<lparr>task_id = 2, task_text = js ''a'', completed = False,
                                createdAt = TimeValue 2\<rparr>],
                     editingId := Some 1, editingText := js '' x''\<rparr>)) = None \<and>
   editingText (step (SaveEdit 1)
     ((initial None)\<lparr>tasks := [\<lparr>task_id = 2, task_text = js ''a'', completed = False,
                                createdAt = TimeValue 2\<rparr>],
                     editingId := Some 1, editingText := js '' x''\<rparr>)) = [] \<and>
   tasks (step (SaveEdit 1)
     ((initial None)\<lparr>tasks := [\<lparr>task_id = 2, task_text = js ''a'', completed = False,
                                createdAt = TimeValue 2\<rparr>],
                     editingId := Some 1, editingText := js '' x''\<rparr>)) =
     [\<lparr>task_id = 2, task_text = js ''a'', completed = False, createdAt = TimeValue 2\<rparr>]"
  using saveEdit_session [of "(initial None)\<lparr>editingId := Some 1, editingText := js ''  ''\<rparr>" 1]
    saveEdit_session [of
      "(initial None)\<lparr>tasks := [\<lparr>task_id = 2, task_text = js ''a'', completed = False,
                                createdAt = TimeValue 2\<rparr>],
                     editingId := Some 1, editingText := js '' x''\<rparr>" 1]
  by (simp add: initial_def trim_def js_def is_WhiteSpace_def)

end
